theory Spec2Isabelle
  imports Main "HOL-Library.Word"
begin

unbundle bit_operations_syntax

section \<open>Machine types and result codes\<close>

type_synonym u8 = "8 word"
type_synonym u16 = "16 word"
type_synonym u32 = "32 word"

text \<open>
  A \<open>uint8_t *\<close> argument is a base address from which the driver reads and writes at
  byte offsets; the pointed-to memory is modelled as a function from offsets to bytes.
  The C functions receive no length, so neither does the model.
\<close>

type_synonym buffer = "nat \<Rightarrow> u8"

text \<open>
  The classification returned by \<open>ecc_correct_data\<close>. The header \<open>ecc_512b.h\<close> that
  gives the four names their numbers is not among the sources; the \<open>switch\<close> in
  \<open>fsmc_nand_read_page\<close> treats them as four distinct cases, and so does the datatype.
\<close>

datatype ecc_result =
  ECC_NO_ERROR | ECC_CORRECTABLE_ERROR | ECC_ECC_ERROR | ECC_UNCORRECTABLE_ERROR

text \<open>
  The result codes of the operation table (\<open>fd_if.h\<close>, not among the sources either).
  The driver only returns them and never computes with them.
\<close>

datatype fm_code =
  FM_SUCCESS | FM_ERROR | FM_ECC_ERROR | FM_WRITE_ERROR | FM_ERASE_ERROR | FM_INIT_FAIL

text \<open>
  The macros of the headers \<open>fsmc_nand.h\<close>, \<open>fd_config.h\<close> and \<open>fd_physical.h\<close> that the
  driver uses are parameters of the model: the four status values (which
  \<open>fsmc_nand_get_status\<close> also uses as bit masks on the status byte), the number of pages
  per block that \<open>ROW_ADDRESS\<close> multiplies by, the size factor of the local spare arrays,
  and whether \<open>ECC_METHOD == HW_ECC\<close>.
\<close>

record lld_config =
  NAND_BUSY :: u32
  NAND_ERROR :: u32
  NAND_READY :: u32
  NAND_TIMEOUT_ERROR :: u32
  NAND_BLOCK_SIZE :: u32
  MAX_SECTORS_PER_PAGE :: nat
  HW_ECC :: bool

text \<open>\<open>ASYNC_MODE\<close> is defined in the driver itself.\<close>

definition ASYNC_MODE :: nat where
  "ASYNC_MODE = 1"

section \<open>ECC correction (\<open>ecc_correct_data\<close>)\<close>

definition ECC_MASK28 :: u32 where
  "ECC_MASK28 = 0x0FFFFFFF"

definition ECC_MASK :: u32 where
  "ECC_MASK = 0x05555555"

text \<open>
  The loop \<open>while (mask) { if (syndrome & mask) count++; mask >>= 1; }\<close>.
\<close>

function count_loop :: "u32 \<Rightarrow> u32 \<Rightarrow> u32 \<Rightarrow> u32" where
  "count_loop syndrome msk count =
     (if msk \<noteq> 0
      then count_loop syndrome (drop_bit 1 msk)
             (if syndrome AND msk \<noteq> 0 then count + 1 else count)
      else count)"
  by pat_completeness auto
termination
proof (relation "measure (\<lambda>(syndrome, msk, count). unat msk)")
  show "wf (measure (\<lambda>(syndrome :: u32, msk :: u32, count :: u32). unat msk))"
    by simp
next
  fix syndrome msk count :: u32
  assume "msk \<noteq> 0"
  then have "0 < unat msk"
    by (simp add: unat_gt_0)
  then have "unat msk div 2 < unat msk"
    by simp
  then show "((syndrome, drop_bit 1 msk, if syndrome AND msk \<noteq> 0 then count + 1 else count),
              (syndrome, msk, count))
             \<in> measure (\<lambda>(syndrome, msk, count). unat msk)"
    by (simp add: unat_drop_bit_eq) (simp add: drop_bit_eq_div)
qed

declare count_loop.simps [simp del]

definition syndrome_of :: "u32 \<Rightarrow> u32 \<Rightarrow> u32" where
  "syndrome_of ecc_calc ecc_read =
     ((ecc_calc XOR 0xFFFFFFFF) XOR (ecc_read XOR 0xFFFFFFFF)) AND ECC_MASK28"

definition bit_num_of :: "u32 \<Rightarrow> u32" where
  "bit_num_of ecc_even =
     (ecc_even AND 0x01) OR
     (drop_bit 1 ecc_even AND 0x02) OR
     (drop_bit 2 ecc_even AND 0x04)"

definition byte_addr_of :: "u32 \<Rightarrow> u32" where
  "byte_addr_of ecc_even =
     (drop_bit 6 ecc_even AND 0x001) OR
     (drop_bit 7 ecc_even AND 0x002) OR
     (drop_bit 8 ecc_even AND 0x004) OR
     (drop_bit 9 ecc_even AND 0x008) OR
     (drop_bit 10 ecc_even AND 0x010) OR
     (drop_bit 11 ecc_even AND 0x020) OR
     (drop_bit 12 ecc_even AND 0x040) OR
     (drop_bit 13 ecc_even AND 0x080) OR
     (drop_bit 14 ecc_even AND 0x100) OR
     (drop_bit 15 ecc_even AND 0x200) OR
     (drop_bit 16 ecc_even AND 0x400)"

text \<open>
  \<open>ecc_correct_data\<close> returns the classification and the data buffer as it leaves it.
  \<open>data[byte_addr] ^= (1 << bit_num)\<close> computes in \<open>int\<close> and stores the low byte.
\<close>

definition ecc_correct_data :: "u32 \<Rightarrow> u32 \<Rightarrow> buffer \<Rightarrow> ecc_result \<times> buffer" where
  "ecc_correct_data ecc_calc ecc_read data =
     (let syndrome = syndrome_of ecc_calc ecc_read in
      if syndrome = 0 then (ECC_NO_ERROR, data)
      else
        let ecc_odd = syndrome AND ECC_MASK;
            ecc_even = drop_bit 1 syndrome AND ECC_MASK
        in
        if ecc_odd XOR ecc_even = ECC_MASK then
          let bit_num = bit_num_of ecc_even;
              byte_addr = byte_addr_of ecc_even
          in (ECC_CORRECTABLE_ERROR,
              data(unat byte_addr :=
                     data (unat byte_addr) XOR ucast (push_bit (unat bit_num) (1 :: u32))))
        else
          let count = count_loop syndrome 0x00800000 0
          in if count = 1 then (ECC_ECC_ERROR, data)
             else (ECC_UNCORRECTABLE_ERROR, data))"

section \<open>The chip port\<close>

text \<open>
  The command codes of \<open>fsmc_nand.h\<close>, by name.
\<close>

datatype nand_cmd =
  NAND_CMD_READ_1 | NAND_CMD_READ_TRUE
  | NAND_CMD_RANDOMOUT | NAND_CMD_RANDOMOUT_TRUE
  | NAND_CMD_PAGEPROGRAM | NAND_CMD_PAGEPROGRAM_TRUE | NAND_CMD_RANDOMIN
  | NAND_CMD_ERASE0 | NAND_CMD_ERASE1
  | NAND_CMD_READID | NAND_CMD_STATUS | NAND_CMD_RESET

text \<open>
  What the driver puts on the bus: a byte stored to the command area, a byte stored to
  the address area, or the bytes of one transfer to the data area.
\<close>

datatype cycle = CMD nand_cmd | ADDR u8 | DATA "u8 list"

text \<open>
  The hardware as the driver sees it. \<open>pin\<close> gives the successive samples of the
  ready/busy input (PD6) and \<open>port\<close> the successive bytes that reads of the data area
  deliver; each has a read position. \<open>bus\<close> collects the cycles written, oldest first.
  \<open>ecc_unit\<close> is the parity computation of the FSMC: \<open>FSMC_GetECC\<close> returns its value on the
  bytes that crossed the data area since ECC computation was enabled (\<open>ecc_acc\<close>).
  \<open>uninit\<close> is the indeterminate content of an uninitialised local array.
\<close>

record nand_hw =
  pin :: "nat \<Rightarrow> bool"
  pin_pos :: nat
  port :: "nat \<Rightarrow> u8"
  port_pos :: nat
  bus :: "cycle list"
  ecc_unit :: "u8 list \<Rightarrow> u32"
  ecc_on :: bool
  ecc_acc :: "u8 list"
  uninit :: buffer

definition emit :: "nand_hw \<Rightarrow> cycle list \<Rightarrow> nand_hw" where
  "emit h cs = h\<lparr>bus := bus h @ cs\<rparr>"

definition read_port :: "nand_hw \<Rightarrow> u8 \<times> nand_hw" where
  "read_port h = (port h (port_pos h), h\<lparr>port_pos := Suc (port_pos h)\<rparr>)"

definition FSMC_NANDECCCmd :: "bool \<Rightarrow> nand_hw \<Rightarrow> nand_hw" where
  "FSMC_NANDECCCmd enable h =
     (if enable then h\<lparr>ecc_on := True, ecc_acc := []\<rparr> else h\<lparr>ecc_on := False\<rparr>)"

definition FSMC_GetECC :: "nand_hw \<Rightarrow> u32" where
  "FSMC_GetECC h = ecc_unit h (ecc_acc h)"

text \<open>
  \<open>WAIT_FLASH_READY\<close> samples the pin until it reads non-zero. The loop has no bound:
  on a pin that stays low it does not return, which is the value \<open>None\<close>.
  \<open>WAIT_DELAY\<close> is an empty counting loop and has no counterpart here.
\<close>

partial_function (option) wait_pin :: "(nat \<Rightarrow> bool) \<Rightarrow> nat \<Rightarrow> nat option" where
  "wait_pin p k = (if p k then Some (Suc k) else wait_pin p (Suc k))"

definition WAIT_FLASH_READY :: "nand_hw \<Rightarrow> nand_hw option" where
  "WAIT_FLASH_READY h =
     (case wait_pin (pin h) (pin_pos h) of
        None \<Rightarrow> None
      | Some k \<Rightarrow> Some (h\<lparr>pin_pos := k\<rparr>))"

text \<open>
  The transfer channel. \<open>DATA_READ\<close> and \<open>DATA_WRITE\<close> choose between the processor
  loops and the DMA engine from the address of the buffer; both move \<open>size\<close> (\<open>sz\<close>) bytes in
  port order between the data area and the start of the buffer. The model is that
  completed transfer; the DMA registers and their polling loops are outside it.
\<close>

definition DATA_READ :: "nand_hw \<Rightarrow> buffer \<Rightarrow> nat \<Rightarrow> buffer \<times> nand_hw" where
  "DATA_READ h buf sz =
     (let bytes = map (\<lambda>i. port h (port_pos h + i)) [0..<sz]
      in (\<lambda>i. if i < sz then port h (port_pos h + i) else buf i,
          h\<lparr>port_pos := port_pos h + sz,
            ecc_acc := (if ecc_on h then ecc_acc h @ bytes else ecc_acc h)\<rparr>))"

definition DATA_WRITE :: "nand_hw \<Rightarrow> buffer \<Rightarrow> nat \<Rightarrow> nand_hw" where
  "DATA_WRITE h buf sz =
     (let bytes = map buf [0..<sz]
      in h\<lparr>bus := bus h @ [DATA bytes],
           ecc_acc := (if ecc_on h then ecc_acc h @ bytes else ecc_acc h)\<rparr>)"

text \<open>
  \<open>*(uint32_t *)(buf + off)\<close> on the little-endian Cortex-M4.
\<close>

definition load32 :: "buffer \<Rightarrow> nat \<Rightarrow> u32" where
  "load32 buf off =
     ucast (buf off) OR push_bit 8 (ucast (buf (off + 1)))
       OR push_bit 16 (ucast (buf (off + 2))) OR push_bit 24 (ucast (buf (off + 3)))"

definition store32 :: "buffer \<Rightarrow> nat \<Rightarrow> u32 \<Rightarrow> buffer" where
  "store32 buf off v =
     buf(off := ucast v, off + 1 := ucast (drop_bit 8 v),
         off + 2 := ucast (drop_bit 16 v), off + 3 := ucast (drop_bit 24 v))"

section \<open>Row address\<close>

definition ROW_ADDRESS :: "lld_config \<Rightarrow> u32 \<Rightarrow> u16 \<Rightarrow> u32" where
  "ROW_ADDRESS c block page = ucast page + block * NAND_BLOCK_SIZE c"

text \<open>
  Modelled from the spec: the macros \<open>ADDR_1st_CYCLE\<close> and \<open>ADDR_2nd_CYCLE\<close> of
  \<open>fsmc_nand.h\<close> are not among the sources. The spec says that the row address is split
  into two 8-bit address cycles for transmission: the first carries bits 0 to 7 and the
  second bits 8 to 15.
\<close>

definition ADDR_1st_CYCLE :: "u32 \<Rightarrow> u8" where
  "ADDR_1st_CYCLE a = ucast (a AND 0xFF)"

definition ADDR_2nd_CYCLE :: "u32 \<Rightarrow> u8" where
  "ADDR_2nd_CYCLE a = ucast (drop_bit 8 (a AND 0xFF00))"

text \<open>The row address that a chip assembles from the two cycles.\<close>

definition row_of_cycles :: "u8 \<Rightarrow> u8 \<Rightarrow> u32" where
  "row_of_cycles a1 a2 = ucast a1 OR push_bit 8 (ucast a2)"

section \<open>Status resolution (\<open>fsmc_nand_get_status\<close>)\<close>

text \<open>
  One round of the \<open>while\<close> loop issues the status command, reads one byte from the port
  and classifies it; \<open>timeout\<close> counts down from 2.
\<close>

function status_loop :: "lld_config \<Rightarrow> nand_hw \<Rightarrow> u32 \<Rightarrow> u32 \<Rightarrow> nand_hw \<times> u32 \<times> u32" where
  "status_loop c h timeout status =
     (if status \<noteq> NAND_READY c \<and> timeout \<noteq> 0 then
        let h1 = emit h [CMD NAND_CMD_STATUS];
            (byte, h2) = read_port h1;
            data = (ucast byte :: u32);
            status' =
              (if data AND NAND_ERROR c = NAND_ERROR c then NAND_ERROR c
               else if data AND NAND_READY c = NAND_READY c then NAND_READY c
               else NAND_BUSY c)
        in status_loop c h2 (timeout - 1) status'
      else (h, timeout, status))"
  by pat_completeness auto
termination
proof (relation "measure (\<lambda>(c, h, timeout, status). unat timeout)")
  show "wf (measure (\<lambda>(c :: lld_config, h :: nand_hw, timeout :: u32, status :: u32).
              unat timeout))"
    by simp
next
  fix c :: lld_config and h h1 h2 :: nand_hw and timeout status data status' :: u32
    and x :: "u8 \<times> nand_hw" and byte :: u8
  assume "status \<noteq> NAND_READY c \<and> timeout \<noteq> 0"
  then have "timeout \<noteq> 0"
    by simp
  then have "unat (timeout - 1) < unat timeout"
    by (simp add: unat_minus_one unat_gt_0)
  then show "((c, h2, timeout - 1, status'), (c, h, timeout, status))
             \<in> measure (\<lambda>(c, h, timeout, status). unat timeout)"
    by simp
qed

declare status_loop.simps [simp del]

definition fsmc_nand_get_status :: "lld_config \<Rightarrow> nand_hw \<Rightarrow> (u32 \<times> nand_hw) option" where
  "fsmc_nand_get_status c h =
     (case WAIT_FLASH_READY h of
        None \<Rightarrow> None
      | Some h0 \<Rightarrow>
          let (h1, timeout, status) = status_loop c h0 2 (NAND_BUSY c)
          in Some (if timeout = 0 then NAND_TIMEOUT_ERROR c else status, h1))"

section \<open>Chip geometry (\<open>fsmc_nand_read_id\<close>)\<close>

record nand_id_t =
  maker_id :: u8
  device_id :: u8
  id3 :: u8
  id4 :: u8
  id5 :: u8

record nand_info_t =
  internal_chip_number :: u32
  cell_type :: u32
  simul_prog_pages :: u32
  interleave_support :: u32
  cache_prog_support :: u32
  page_size :: u32
  block_size :: u32
  spare_size_per_512 :: u32
  organization :: u32
  serial_access_min :: u32
  plane_number :: u32
  plane_size :: u32

text \<open>
  \<open>flash_chip_spec_t\<close> is declared in \<open>fd_if.h\<close>; its fields are those of the static
  initialiser of \<open>flash_spec\<close>, in that order. \<open>block_size\<close> holds \<open>2048 * 64\<close> there, so
  the fields are taken to be 32 bits wide like those of \<open>nand_info_t\<close>. The field \<open>type\<close>
  is called \<open>flash_type\<close> here; the driver only ever stores \<open>SLC_NAND_FLASH\<close> in it, and
  \<open>OTHER_FLASH\<close> stands for the other values of its enumeration. The names \<open>page_size\<close> and \<open>block_size\<close> occur in both
  records; unqualified they denote the fields of \<open>flash_chip_spec_t\<close>.
\<close>

datatype flash_type_t = SLC_NAND_FLASH | OTHER_FLASH

record flash_chip_spec_t =
  flash_type :: flash_type_t
  page_size :: u32
  data_size :: u32
  spare_size :: u32
  sectors_per_page :: u32
  pages_per_block :: u32
  block_size :: u32
  num_blocks :: u32
  num_dies_per_ce :: u32
  num_planes :: u32
  max_num_bad_blocks :: u32
  constraints :: u32

text \<open>The static initialiser of \<open>flash_spec[0]\<close>.\<close>

definition flash_spec_init :: flash_chip_spec_t where
  "flash_spec_init =
     \<lparr>flash_type = SLC_NAND_FLASH,
      page_size = 2048 + 64,
      data_size = 2048,
      spare_size = 64,
      sectors_per_page = 4,
      pages_per_block = 64,
      block_size = 2048 * 64,
      num_blocks = 1024,
      num_dies_per_ce = 1,
      num_planes = 1,
      max_num_bad_blocks = 25,
      constraints = 0\<rparr>"

text \<open>
  The three blocks ``extract information from the 3rd, 4th, 5th ID''. The operands are
  bytes promoted to \<open>int\<close>; no shift leaves 31 bits, so 32-bit words compute the same.
\<close>

definition extract_info :: "nand_id_t \<Rightarrow> nand_info_t" where
  "extract_info nid =
     \<lparr>internal_chip_number = push_bit (unat (id3 nid AND 0x03)) 1,
      cell_type = push_bit (unat (drop_bit 2 (id3 nid AND 0x0c))) 2,
      simul_prog_pages = push_bit (unat (drop_bit 4 (id3 nid AND 0x30))) 1,
      interleave_support = ucast (drop_bit 6 (id3 nid AND 0x40)),
      cache_prog_support = ucast (drop_bit 7 (id3 nid AND 0x80)),
      page_size = push_bit (unat (id4 nid AND 0x03)) 1024,
      block_size = push_bit (unat (drop_bit 4 (id4 nid AND 0x30))) (64 * 1024),
      spare_size_per_512 = push_bit (unat (drop_bit 2 (id4 nid AND 0x04))) 8,
      organization = push_bit (unat (drop_bit 6 (id4 nid AND 0x40))) 8,
      serial_access_min = drop_bit (unat (drop_bit 7 (id4 nid AND 0x80))) 50,
      plane_number = push_bit (unat (drop_bit 2 (id5 nid AND 0x0c))) 1,
      plane_size = push_bit (unat (drop_bit 4 (id5 nid AND 0x70))) (8 * 1024 * 1024)\<rparr>"

text \<open>
  The block that fills \<open>flash_spec[chip]\<close> from the decoded information, one assignment
  after the other. \<open>/\<close> is unsigned 32-bit division.
\<close>

definition fill_spec :: "nand_info_t \<Rightarrow> flash_chip_spec_t \<Rightarrow> flash_chip_spec_t" where
  "fill_spec n f =
     (let f1 = f\<lparr>data_size := nand_info_t.page_size n\<rparr>;
          f2 = f1\<lparr>sectors_per_page := drop_bit 9 (nand_info_t.page_size n)\<rparr>;
          f3 = f2\<lparr>spare_size := spare_size_per_512 n * sectors_per_page f2\<rparr>;
          f4 = f3\<lparr>page_size := data_size f3 + spare_size f3\<rparr>;
          f5 = f4\<lparr>block_size := nand_info_t.block_size n\<rparr>;
          f6 = f5\<lparr>pages_per_block := block_size f5 div data_size f5\<rparr>;
          f7 = f6\<lparr>num_blocks := plane_size n div block_size f6 * plane_number n\<rparr>;
          f8 = f7\<lparr>num_dies_per_ce := internal_chip_number n\<rparr>;
          f9 = f8\<lparr>num_planes := plane_number n\<rparr>
      in f9\<lparr>max_num_bad_blocks := num_blocks f9 * 245 div 10000\<rparr>)"

text \<open>
  \<open>fsmc_nand_read_id\<close> sends the command, reads the five identity bytes from the port and
  updates \<open>nand_info[chip]\<close> and \<open>flash_spec[chip]\<close>. It returns the result code, the identity
  and the updated tables and hardware.
\<close>

definition fsmc_nand_read_id ::
  "nand_hw \<Rightarrow> (nat \<Rightarrow> nand_info_t) \<Rightarrow> (nat \<Rightarrow> flash_chip_spec_t) \<Rightarrow> u16
   \<Rightarrow> fm_code \<times> nand_id_t \<times> (nat \<Rightarrow> nand_info_t) \<times> (nat \<Rightarrow> flash_chip_spec_t) \<times> nand_hw"
  where
  "fsmc_nand_read_id h nand_info flash_spec chip =
     (let h0 = emit h [CMD NAND_CMD_READID, ADDR 0x00];
          (b1, h1) = read_port h0;
          (b2, h2) = read_port h1;
          (b3, h3) = read_port h2;
          (b4, h4) = read_port h3;
          (b5, h5) = read_port h4;
          nid = \<lparr>maker_id = b1, device_id = b2, id3 = b3, id4 = b4, id5 = b5\<rparr>;
          n = extract_info nid;
          f = fill_spec n (flash_spec (unat chip))
      in (FM_SUCCESS, nid, nand_info(unat chip := n), flash_spec(unat chip := f), h5))"

section \<open>Page read (\<open>fsmc_nand_read_page\<close>)\<close>

text \<open>
  The code from the label \<open>ecc_retry\<close> to the end of the \<open>switch\<close>: \<open>retry\<close> is 0 on entry
  and 1 after the \<open>goto\<close>. It returns \<open>err\<close> and the data buffer.
\<close>

function ecc_retry :: "u32 \<Rightarrow> buffer \<Rightarrow> u32 \<Rightarrow> nat \<Rightarrow> buffer \<Rightarrow> fm_code \<times> buffer" where
  "ecc_retry ecc_calc sbuf ecc_read retry dbuf =
     (if ecc_calc \<noteq> ecc_read then
        (case ecc_correct_data ecc_calc ecc_read dbuf of
           (ECC_NO_ERROR, dbuf') \<Rightarrow> (FM_SUCCESS, dbuf')
         | (ECC_CORRECTABLE_ERROR, dbuf') \<Rightarrow> (FM_SUCCESS, dbuf')
         | (ECC_ECC_ERROR, dbuf') \<Rightarrow>
             if retry = 0 then ecc_retry ecc_calc sbuf (load32 sbuf 12) 1 dbuf'
             else (FM_ECC_ERROR, dbuf')
         | (ECC_UNCORRECTABLE_ERROR, dbuf') \<Rightarrow> (FM_ECC_ERROR, dbuf'))
      else (FM_SUCCESS, dbuf))"
  by pat_completeness auto
termination
  by (relation "measure (\<lambda>(ecc_calc, sbuf, ecc_read, retry, dbuf). 1 - retry)") auto

declare ecc_retry.simps [simp del]

text \<open>
  A null pointer is \<open>None\<close>. The result is \<open>err\<close>, the memory behind \<open>dbuf\<close> and behind the
  caller's \<open>sbuf\<close> after the call, and the hardware. With \<open>HW_ECC\<close> a null \<open>sbuf\<close> is
  replaced by the local array \<open>__sbuf\<close> before the argument check. That array has
  \<open>16 * MAX_SECTORS_PER_PAGE\<close> bytes: a spare transfer of more bytes than that runs past its
  end, and so do the 32-bit loads at offsets 8 and 12 when it has fewer than 16 bytes.
  The C program has no defined behaviour then, and the call has no result. So \<open>None\<close>
  stands for a call without a result: the wait for the ready pin never ends, or the
  local array is overrun. The \<open>printf\<close> calls write to the console only and are left
  out. The last branch, a spare-only read without a spare buffer, is excluded by the
  argument check and never taken.
\<close>

definition fsmc_nand_read_page ::
  "lld_config \<Rightarrow> (nat \<Rightarrow> flash_chip_spec_t) \<Rightarrow> nand_hw \<Rightarrow> u16 \<Rightarrow> u32 \<Rightarrow> u16
   \<Rightarrow> buffer option \<Rightarrow> buffer option
   \<Rightarrow> (fm_code \<times> buffer option \<times> buffer option \<times> nand_hw) option"
  where
  "fsmc_nand_read_page c flash_spec h chip block page dbuf sbuf_arg =
     (let local_sbuf = (HW_ECC c \<and> sbuf_arg = None);
          sbuf = (if local_sbuf then Some (uninit h) else sbuf_arg);
          caller = (\<lambda>s. if sbuf_arg = None then None else Some s)
      in
      if dbuf = None \<and> sbuf = None then Some (FM_ERROR, dbuf, sbuf_arg, h)
      else
        let h1 = emit h
              [CMD NAND_CMD_READ_1,
               ADDR 0x00,
               ADDR (if dbuf \<noteq> None then 0x00 else 0x08),
               ADDR (ADDR_1st_CYCLE (ROW_ADDRESS c block page)),
               ADDR (ADDR_2nd_CYCLE (ROW_ADDRESS c block page)),
               CMD NAND_CMD_READ_TRUE]
        in
        case WAIT_FLASH_READY h1 of
          None \<Rightarrow> None
        | Some h2 \<Rightarrow>
            (case dbuf of
               Some d \<Rightarrow>
                 let h3 = (if HW_ECC c then FSMC_NANDECCCmd True h2 else h2);
                     (d1, h4) = DATA_READ h3 d (unat (data_size (flash_spec (unat chip))));
                     ecc_calc = FSMC_GetECC h4 XOR 0xFFFFFFFF;
                     h5 = (if HW_ECC c then FSMC_NANDECCCmd False h4 else h4)
                 in
                 (case sbuf of
                    Some s \<Rightarrow>
                      let h6 = emit h5
                            [CMD NAND_CMD_RANDOMOUT, ADDR 0x00, ADDR 0x08,
                             CMD NAND_CMD_RANDOMOUT_TRUE]
                      in
                      if local_sbuf
                         \<and> 16 * MAX_SECTORS_PER_PAGE c < unat (spare_size (flash_spec (unat chip)))
                      then None
                      else
                        let (s1, h7) =
                              DATA_READ h6 s (unat (spare_size (flash_spec (unat chip))))
                        in
                        if HW_ECC c then
                          if local_sbuf \<and> 16 * MAX_SECTORS_PER_PAGE c < 16 then None
                          else
                            let (err, d2) = ecc_retry ecc_calc s1 (load32 s1 8) 0 d1
                            in Some (err, Some d2, caller s1, h7)
                        else Some (FM_SUCCESS, Some d1, caller s1, h7)
                  | None \<Rightarrow> Some (FM_SUCCESS, Some d1, None, h5))
             | None \<Rightarrow>
                 (case sbuf of
                    Some s \<Rightarrow>
                      if local_sbuf
                         \<and> 16 * MAX_SECTORS_PER_PAGE c < unat (spare_size (flash_spec (unat chip)))
                      then None
                      else
                        let (s1, h3) =
                              DATA_READ h2 s (unat (spare_size (flash_spec (unat chip))))
                        in Some (FM_SUCCESS, None, caller s1, h3)
                  | None \<Rightarrow> Some (FM_ERROR, None, None, h2))))"

section \<open>Page program, raw program, erase and sync\<close>

text \<open>
  \<open>fsmc_nand_write_page\<close> returns the result code, the memory behind the caller's \<open>sbuf\<close>
  (which receives the two copies of the code when \<open>HW_ECC\<close> is set) and the hardware.
  The status is resolved before returning only when \<open>ASYNC_MODE\<close> is 0. The branch without
  either buffer is excluded by the argument check and never taken.
\<close>

definition fsmc_nand_write_page ::
  "lld_config \<Rightarrow> (nat \<Rightarrow> flash_chip_spec_t) \<Rightarrow> nand_hw \<Rightarrow> u16 \<Rightarrow> u32 \<Rightarrow> u16
   \<Rightarrow> buffer option \<Rightarrow> buffer option \<Rightarrow> bool
   \<Rightarrow> (fm_code \<times> buffer option \<times> nand_hw) option"
  where
  "fsmc_nand_write_page c flash_spec h chip block page dbuf sbuf_arg is_last =
     (let status = NAND_READY c;
          sbuf = (if HW_ECC c \<and> sbuf_arg = None
                  then Some (\<lambda>i. if i < 16 * MAX_SECTORS_PER_PAGE c then 0xFF else uninit h i)
                  else sbuf_arg);
          caller = (\<lambda>s. if sbuf_arg = None then None else s)
      in
      if dbuf = None \<and> sbuf = None then Some (FM_ERROR, sbuf_arg, h)
      else
        let h1 = emit h
              [CMD NAND_CMD_PAGEPROGRAM,
               ADDR 0x00,
               ADDR (if dbuf \<noteq> None then 0x00 else 0x08),
               ADDR (ADDR_1st_CYCLE (ROW_ADDRESS c block page)),
               ADDR (ADDR_2nd_CYCLE (ROW_ADDRESS c block page))];
            (sbuf', h2) =
              (case dbuf of
                 Some d \<Rightarrow>
                   let g1 = (if HW_ECC c then FSMC_NANDECCCmd True h1 else h1);
                       g2 = DATA_WRITE g1 d (unat (data_size (flash_spec (unat chip))));
                       ecc_calc = FSMC_GetECC g2 XOR 0xFFFFFFFF;
                       g3 = (if HW_ECC c then FSMC_NANDECCCmd False g2 else g2);
                       sb = (if HW_ECC c
                             then map_option (\<lambda>s. store32 (store32 s 8 ecc_calc) 12 ecc_calc) sbuf
                             else sbuf)
                   in
                   (case sb of
                      Some s \<Rightarrow>
                        (sb,
                         DATA_WRITE (emit g3 [CMD NAND_CMD_RANDOMIN, ADDR 0x00, ADDR 0x08]) s
                           (unat (spare_size (flash_spec (unat chip)))))
                    | None \<Rightarrow> (sb, g3))
               | None \<Rightarrow>
                   (case sbuf of
                      Some s \<Rightarrow>
                        (sbuf, DATA_WRITE h1 s (unat (spare_size (flash_spec (unat chip)))))
                    | None \<Rightarrow> (sbuf, h1)));
            h3 = emit h2 [CMD NAND_CMD_PAGEPROGRAM_TRUE]
        in
        if ASYNC_MODE = 0 then
          (case fsmc_nand_get_status c h3 of
             None \<Rightarrow> None
           | Some (status', h4) \<Rightarrow>
               Some (if status' = NAND_READY c then FM_SUCCESS else FM_WRITE_ERROR,
                     caller sbuf', h4))
        else
          Some (if status = NAND_READY c then FM_SUCCESS else FM_WRITE_ERROR,
                caller sbuf', h3))"

definition fsmc_nand_write_bytes ::
  "lld_config \<Rightarrow> nand_hw \<Rightarrow> u16 \<Rightarrow> u32 \<Rightarrow> u16 \<Rightarrow> u32 \<Rightarrow> buffer option
   \<Rightarrow> (fm_code \<times> nand_hw) option"
  where
  "fsmc_nand_write_bytes c h chip block page num_bytes dbuf =
     (let status = NAND_READY c in
      case dbuf of
        None \<Rightarrow> Some (FM_ERROR, h)
      | Some d \<Rightarrow>
          if num_bytes < 4 then Some (FM_ERROR, h)
          else
            let h1 = emit h
                  [CMD NAND_CMD_PAGEPROGRAM,
                   ADDR 0x00,
                   ADDR 0x00,
                   ADDR (ADDR_1st_CYCLE (ROW_ADDRESS c block page)),
                   ADDR (ADDR_2nd_CYCLE (ROW_ADDRESS c block page))];
                h2 = DATA_WRITE h1 d (unat num_bytes);
                h3 = emit h2 [CMD NAND_CMD_PAGEPROGRAM_TRUE]
            in
            if ASYNC_MODE = 0 then
              (case fsmc_nand_get_status c h3 of
                 None \<Rightarrow> None
               | Some (status', h4) \<Rightarrow>
                   Some (if status' = NAND_READY c then FM_SUCCESS else FM_WRITE_ERROR, h4))
            else Some (if status = NAND_READY c then FM_SUCCESS else FM_WRITE_ERROR, h3))"

definition fsmc_nand_erase ::
  "lld_config \<Rightarrow> nand_hw \<Rightarrow> u16 \<Rightarrow> u32 \<Rightarrow> (fm_code \<times> nand_hw) option"
  where
  "fsmc_nand_erase c h chip block =
     (let status = NAND_READY c;
          h1 = emit h
            [CMD NAND_CMD_ERASE0,
             ADDR (ADDR_1st_CYCLE (ROW_ADDRESS c block 0)),
             ADDR (ADDR_2nd_CYCLE (ROW_ADDRESS c block 0)),
             CMD NAND_CMD_ERASE1]
      in
      if ASYNC_MODE = 0 then
        (case fsmc_nand_get_status c h1 of
           None \<Rightarrow> None
         | Some (status', h2) \<Rightarrow>
             Some (if status' = NAND_READY c then FM_SUCCESS else FM_ERASE_ERROR, h2))
      else Some (if status = NAND_READY c then FM_SUCCESS else FM_ERASE_ERROR, h1))"

definition fsmc_nand_sync ::
  "lld_config \<Rightarrow> nand_hw \<Rightarrow> u16 \<Rightarrow> u16 \<Rightarrow> (fm_code \<times> nand_hw) option"
  where
  "fsmc_nand_sync c h chip prev_command =
     (case fsmc_nand_get_status c h of
        None \<Rightarrow> None
      | Some (status, h1) \<Rightarrow>
          Some (if status = NAND_READY c then FM_SUCCESS else FM_ERROR, h1))"

text \<open>
  What it means for an operation that takes the hardware from \<open>h\<close> to \<open>h'\<close> to have
  resolved no status: the bus only grew, no status command was issued, and neither the
  port nor the ready pin was read.
\<close>

definition no_status_resolution :: "nand_hw \<Rightarrow> nand_hw \<Rightarrow> bool" where
  "no_status_resolution h h' \<longleftrightarrow>
     take (length (bus h)) (bus h') = bus h
     \<and> CMD NAND_CMD_STATUS \<notin> set (drop (length (bus h)) (bus h'))
     \<and> port_pos h' = port_pos h
     \<and> pin_pos h' = pin_pos h"

section \<open>Concrete parameters and inputs\<close>

text \<open>
  An instance of the parameters: status values with separate bits for error and ready,
  64 pages per block as in the static \<open>flash_spec\<close>, and hardware ECC.
\<close>

definition example_config :: lld_config where
  "example_config =
     \<lparr>NAND_BUSY = 0x00, NAND_ERROR = 0x01, NAND_READY = 0x40, NAND_TIMEOUT_ERROR = 0x80,
      NAND_BLOCK_SIZE = 0x40, MAX_SECTORS_PER_PAGE = 4, HW_ECC = True\<rparr>"

text \<open>
  Hardware whose ready pin is high at every sample and whose port delivers the given
  bytes; the parity unit returns 0 on every input.
\<close>

definition example_hw :: "(nat \<Rightarrow> u8) \<Rightarrow> nand_hw" where
  "example_hw bytes =
     \<lparr>pin = \<lambda>k. True, pin_pos = 0, port = bytes, port_pos = 0, bus = [],
      ecc_unit = \<lambda>bs. 0, ecc_on = False, ecc_acc = [], uninit = \<lambda>i. 0\<rparr>"

text \<open>A geometry with a 4-byte data area and a 16-byte spare area, to keep examples short.\<close>

definition small_spec :: "nat \<Rightarrow> flash_chip_spec_t" where
  "small_spec = (\<lambda>chip. flash_spec_init\<lparr>data_size := 4, spare_size := 16\<rparr>)"

text \<open>
  The identity bytes of a 2 Gbit part with 2048-byte pages and 128 KiB blocks in two
  planes of 128 MiB.
\<close>

definition k9f2g08_id :: nand_id_t where
  "k9f2g08_id = \<lparr>maker_id = 0xEC, device_id = 0xDA, id3 = 0x10, id4 = 0x95, id5 = 0x44\<rparr>"

section \<open>Properties of the ECC correction\<close>

lemma all_ones_u32: "(0xFFFFFFFF :: u32) = - 1"
  by simp

text \<open>Complementing both codes does not change the syndrome.\<close>

lemma syndrome_of_xor: "syndrome_of c s = (c XOR s) AND 0x0FFFFFFF"
  unfolding syndrome_of_def ECC_MASK28_def all_ones_u32
  by (simp add: bit_eq_iff bit_simps)

lemma ucast_one_shifted: "(ucast ((2 :: u32) ^ n) :: u8) = 2 ^ n"
  by (rule bit_eqI) (auto simp add: bit_simps)

lemma bit_int_exp: "bit ((2 :: int) ^ m) k \<longleftrightarrow> k = m"
  by (auto simp add: bit_simps)

lemma bit_int_pow2:
  "bit (0x02 :: int) k \<longleftrightarrow> k = 1"
  "bit (0x04 :: int) k \<longleftrightarrow> k = 2"
  "bit (0x08 :: int) k \<longleftrightarrow> k = 3"
  "bit (0x10 :: int) k \<longleftrightarrow> k = 4"
  "bit (0x20 :: int) k \<longleftrightarrow> k = 5"
  "bit (0x40 :: int) k \<longleftrightarrow> k = 6"
  "bit (0x80 :: int) k \<longleftrightarrow> k = 7"
  "bit (0x100 :: int) k \<longleftrightarrow> k = 8"
  "bit (0x200 :: int) k \<longleftrightarrow> k = 9"
  "bit (0x400 :: int) k \<longleftrightarrow> k = 10"
  using bit_int_exp [of 1 k] bit_int_exp [of 2 k] bit_int_exp [of 3 k]
    bit_int_exp [of 4 k] bit_int_exp [of 5 k] bit_int_exp [of 6 k] bit_int_exp [of 7 k]
    bit_int_exp [of 8 k] bit_int_exp [of 9 k] bit_int_exp [of 10 k]
  by simp_all

lemmas bit_field_simps = bit_and_iff bit_or_iff bit_drop_bit_eq bit_1_iff bit_int_pow2

text \<open>
  The bit index gathers bits 0, 2, 4 of the even parity word, the byte offset its bits
  6, 8, ..., 26.
\<close>

lemma bit_bit_num_of: "bit (bit_num_of e) k \<longleftrightarrow> k < 3 \<and> bit e (2 * k)"
proof (cases "k < 3")
  case True
  then consider "k = 0" | "k = 1" | "k = 2"
    by linarith
  then show ?thesis
    by cases (simp_all add: bit_num_of_def bit_field_simps del: One_nat_def)
next
  case False
  then show ?thesis
    by (auto simp add: bit_num_of_def bit_field_simps)
qed

lemma bit_byte_addr_of: "bit (byte_addr_of e) k \<longleftrightarrow> k < 11 \<and> bit e (2 * k + 6)"
proof (cases "k < 11")
  case True
  then consider "k < 6" | "6 \<le> k" "k < 11"
    by linarith
  then show ?thesis
  proof cases
    case 1
    then consider "k = 0" | "k = 1" | "k = 2" | "k = 3" | "k = 4" | "k = 5"
      by linarith
    then show ?thesis
      by cases (simp_all add: byte_addr_of_def bit_field_simps del: One_nat_def)
  next
    case 2
    then consider "k = 6" | "k = 7" | "k = 8" | "k = 9" | "k = 10"
      by linarith
    then show ?thesis
      by cases (simp_all add: byte_addr_of_def bit_field_simps del: One_nat_def)
  qed
next
  case False
  then show ?thesis
    by (auto simp add: byte_addr_of_def bit_field_simps)
qed

text \<open>
  Bit \<open>j\<close> of the even parity word is bit \<open>j + 1\<close> of the syndrome, at the even positions
  that \<open>ECC_MASK\<close> keeps.
\<close>

lemma even_bit_num:
  assumes "k < 3"
  shows "bit (drop_bit 1 syn AND ECC_MASK) (2 * k) = bit (syn :: u32) (2 * k + 1)"
proof -
  from assms consider "k = 0" | "k = 1" | "k = 2"
    by linarith
  then show ?thesis
    by cases
      (simp_all add: ECC_MASK_def bit_and_iff bit_drop_bit_eq del: One_nat_def, simp_all)
qed

lemma even_byte_addr:
  assumes "k < 11"
  shows "bit (drop_bit 1 syn AND ECC_MASK) (2 * k + 6) = bit (syn :: u32) (2 * k + 7)"
proof -
  from assms consider "k < 6" | "6 \<le> k" "k < 11"
    by linarith
  then show ?thesis
  proof cases
    case 1
    then consider "k = 0" | "k = 1" | "k = 2" | "k = 3" | "k = 4" | "k = 5"
      by linarith
    then show ?thesis
      by cases
        (simp_all add: ECC_MASK_def bit_and_iff bit_drop_bit_eq del: One_nat_def, simp_all)
  next
    case 2
    then consider "k = 6" | "k = 7" | "k = 8" | "k = 9" | "k = 10"
      by linarith
    then show ?thesis
      by cases
        (simp_all add: ECC_MASK_def bit_and_iff bit_drop_bit_eq del: One_nat_def, simp_all)
  qed
qed

lemma unat_less_exp_of_bits:
  fixes w :: u32
  assumes "\<And>k. bit w k \<Longrightarrow> k < n"
  shows "unat w < 2 ^ n"
proof -
  have "take_bit n w = w"
    by (rule bit_eqI) (auto simp add: bit_take_bit_iff dest: assms)
  then have "unat w = take_bit n (unat w)"
    by (metis unsigned_take_bit_eq)
  also have "\<dots> < 2 ^ n"
    by (rule take_bit_nat_less_exp)
  finally show ?thesis .
qed

text \<open>
  C6. When the computed and the stored code are identical, and more generally when
  their syndrome \<open>(computed XOR stored) & 0x0FFFFFFF\<close> is zero, \<open>ecc_correct_data\<close> returns
  \<open>ECC_NO_ERROR\<close> and leaves the data buffer as it was.
\<close>

theorem ecc_zero_syndrome_no_error:
  "ecc_correct_data c c d = (ECC_NO_ERROR, d)
   \<and> ((c XOR s) AND 0x0FFFFFFF = 0 \<longrightarrow> ecc_correct_data c s d = (ECC_NO_ERROR, d))"
  by (simp add: ecc_correct_data_def syndrome_of_xor)

theorem ecc_zero_syndrome_no_error_witness:
  "(0xF0000005 XOR 0x00000005 :: u32) AND 0x0FFFFFFF = 0
   \<and> ecc_correct_data 0xF0000005 0x00000005 (\<lambda>i. 0x5A) = (ECC_NO_ERROR, \<lambda>i. 0x5A)
   \<and> ecc_correct_data 0x00C0FFEE 0x00C0FFEE (\<lambda>i. 0x5A) = (ECC_NO_ERROR, \<lambda>i. 0x5A)"
  using ecc_zero_syndrome_no_error [of "0xF0000005" "\<lambda>i. 0x5A" "0x00000005"]
    ecc_zero_syndrome_no_error [of "0x00C0FFEE" "\<lambda>i. 0x5A" "0x00C0FFEE"]
  by simp

text \<open>
  C4. Let the syndrome be \<open>(computed XOR stored) & 0x0FFFFFFF\<close>, \<open>odd = syndrome & 0x05555555\<close>
  and \<open>even = (syndrome >> 1) & 0x05555555\<close>. If \<open>odd XOR even = 0x05555555\<close> then
  \<open>ecc_correct_data\<close> returns \<open>ECC_CORRECTABLE_ERROR\<close> and the data buffer differs from the
  old one in one bit: bit \<open>b\<close> of the byte at offset \<open>a\<close> is flipped and every other
  byte is unchanged. \<open>b\<close> is below 8 and \<open>a\<close> below 2048; bit \<open>k\<close> of \<open>b\<close> is bit \<open>2k\<close> of
  \<open>even\<close>, which is bit \<open>2k + 1\<close> of the syndrome, and bit \<open>k\<close> of \<open>a\<close> is bit \<open>2k + 6\<close> of
  \<open>even\<close>, which is bit \<open>2k + 7\<close> of the syndrome.
\<close>

theorem ecc_single_bit_corrected:
  fixes c s :: u32 and d :: buffer
  defines "syn \<equiv> (c XOR s) AND 0x0FFFFFFF"
  defines "b \<equiv> unat (bit_num_of (drop_bit 1 syn AND 0x05555555))"
  defines "a \<equiv> unat (byte_addr_of (drop_bit 1 syn AND 0x05555555))"
  assumes pairs: "(syn AND 0x05555555) XOR (drop_bit 1 syn AND 0x05555555) = 0x05555555"
  shows "ecc_correct_data c s d = (ECC_CORRECTABLE_ERROR, d(a := d a XOR 2 ^ b))
       \<and> b < 8 \<and> a < 2048
       \<and> (\<forall>k. bit b k \<longleftrightarrow> k < 3 \<and> bit syn (2 * k + 1))
       \<and> (\<forall>k. bit a k \<longleftrightarrow> k < 11 \<and> bit syn (2 * k + 7))"
proof -
  have run: "ecc_correct_data c s d = (ECC_CORRECTABLE_ERROR, d(a := d a XOR 2 ^ b))"
  proof -
    have "syndrome_of c s = syn"
      by (simp add: syndrome_of_xor syn_def)
    moreover have "syn \<noteq> 0"
      using pairs by auto
    ultimately show ?thesis
      using pairs
      by (simp add: ecc_correct_data_def Let_def ECC_MASK_def ucast_one_shifted b_def a_def)
  qed
  have b_bits: "bit b k \<longleftrightarrow> k < 3 \<and> bit syn (2 * k + 1)" for k
    using even_bit_num [of k syn]
    by (auto simp add: b_def bit_unsigned_iff bit_bit_num_of ECC_MASK_def)
  have a_bits: "bit a k \<longleftrightarrow> k < 11 \<and> bit syn (2 * k + 7)" for k
    using even_byte_addr [of k syn]
    by (auto simp add: a_def bit_unsigned_iff bit_byte_addr_of ECC_MASK_def)
  have "b < 2 ^ 3"
    unfolding b_def by (rule unat_less_exp_of_bits) (simp add: bit_bit_num_of)
  moreover have "a < 2 ^ 11"
    unfolding a_def by (rule unat_less_exp_of_bits) (simp add: bit_byte_addr_of)
  ultimately show ?thesis
    using run b_bits a_bits by simp
qed

text \<open>
  The syndrome \<open>0x0555599A\<close> has its parity pairs set for bit 3 of byte 5.
\<close>

theorem ecc_single_bit_corrected_witness:
  "ecc_correct_data 0x0555599A 0 (\<lambda>i. 0xFF) = (ECC_CORRECTABLE_ERROR, (\<lambda>i. 0xFF)(5 := 0xF7))"
  using ecc_single_bit_corrected [of "0x0555599A" 0 "\<lambda>i. 0xFF"]
  by (simp add: bit_num_of_def byte_addr_of_def)

text \<open>
  The counting loop started at the mask \<open>2 ^ k\<close> counts the set bits at positions 0 to
  \<open>k\<close>.
\<close>

lemma count_loop_zero: "count_loop s 0 c = c"
  by (subst count_loop.simps) simp

lemma count_loop_step:
  "msk \<noteq> 0 \<Longrightarrow> count_loop s msk c =
     count_loop s (drop_bit 1 msk) (if s AND msk \<noteq> 0 then c + 1 else c)"
  by (subst count_loop.simps) simp

lemma and_exp_nonzero: "k < 32 \<Longrightarrow> (s :: u32) AND 2 ^ k \<noteq> 0 \<longleftrightarrow> bit s k"
  by (simp add: bit_iff_and_push_bit_not_eq_0 push_bit_eq_mult)

lemma count_loop_exp:
  "k < 32 \<Longrightarrow> count_loop s (2 ^ k) c = c + of_nat (card {j. j \<le> k \<and> bit s j})"
proof (induction k arbitrary: c)
  case 0
  have "{j. j \<le> 0 \<and> bit s j} = (if bit s 0 then {0} else {})"
    by auto
  moreover have "count_loop s 1 c = (if s AND 1 \<noteq> 0 then c + 1 else c)"
    by (subst count_loop.simps) (simp add: count_loop_zero)
  ultimately show ?case
    using and_exp_nonzero [of 0 s] by simp
next
  case (Suc k)
  then have k: "k < 32"
    by simp
  have nz: "(2 :: u32) ^ Suc k \<noteq> 0"
    using Suc.prems by (simp only: exp_eq_zero_iff) simp
  have half: "drop_bit 1 ((2 :: u32) ^ Suc k) = 2 ^ k"
    using Suc.prems by (intro bit_eqI) (auto simp add: bit_simps)
  have split: "{j. j \<le> Suc k \<and> bit s j}
                 = {j. j \<le> k \<and> bit s j} \<union> (if bit s (Suc k) then {Suc k} else {})"
    by (auto simp add: le_Suc_eq)
  have fin: "finite {j. j \<le> k \<and> bit s j}"
    by simp
  have card: "card {j. j \<le> Suc k \<and> bit s j}
                = card {j. j \<le> k \<and> bit s j} + (if bit s (Suc k) then 1 else 0)"
    unfolding split using fin by (auto simp add: card_insert_if)
  show ?case
    unfolding count_loop_step [OF nz] half
    using and_exp_nonzero [OF Suc.prems, of s] Suc.IH [OF k]
    by (simp add: card)
qed

lemma card_low24_le: "card {j. j \<le> 23 \<and> bit (s :: u32) j} \<le> 24"
proof -
  have "card {j. j \<le> 23 \<and> bit s j} \<le> card {j :: nat. j \<le> 23}"
    by (rule card_mono) auto
  then show ?thesis
    by simp
qed

lemma count_loop_low24:
  "count_loop s 0x00800000 0 = 1 \<longleftrightarrow> card {j. j \<le> 23 \<and> bit s j} = 1"
proof -
  define n where "n = card {j. j \<le> 23 \<and> bit s j}"
  have le: "n \<le> 24"
    unfolding n_def by (rule card_low24_le)
  have "count_loop s (2 ^ 23) 0 = 0 + of_nat n"
    unfolding n_def by (rule count_loop_exp) simp
  then have "count_loop s 0x00800000 0 = of_nat n"
    by simp
  moreover have "unat (of_nat n :: u32) = n"
    using le by (simp add: unat_of_nat take_bit_nat_eq_self_iff)
  ultimately have "unat (count_loop s 0x00800000 0) = n"
    by simp
  then have "count_loop s 0x00800000 0 = 1 \<longleftrightarrow> n = 1"
    by (metis unat_1 word_unat_eq_iff)
  then show ?thesis
    unfolding n_def .
qed

text \<open>
  So, past the pair test, the classification depends on bits 0 to 23 of the syndrome
  alone: \<open>ECC_ECC_ERROR\<close> when exactly one of them is set, \<open>ECC_UNCORRECTABLE_ERROR\<close>
  otherwise. Bits 24 to 27 are not counted.
\<close>

lemma ecc_count_classification:
  fixes c s :: u32 and d :: buffer
  defines "syn \<equiv> (c XOR s) AND 0x0FFFFFFF"
  assumes "syn \<noteq> 0"
    and "(syn AND 0x05555555) XOR (drop_bit 1 syn AND 0x05555555) \<noteq> 0x05555555"
  shows "ecc_correct_data c s d =
           (if card {j. j \<le> 23 \<and> bit syn j} = 1 then ECC_ECC_ERROR
            else ECC_UNCORRECTABLE_ERROR, d)"
proof -
  define n where "n = card {j. j \<le> 23 \<and> bit syn j}"
  have count: "count_loop syn 0x00800000 0 = 1 \<longleftrightarrow> n = 1"
    unfolding n_def by (rule count_loop_low24)
  have "syndrome_of c s = syn"
    by (simp add: syndrome_of_xor syn_def)
  with assms(2,3) have "ecc_correct_data c s d =
      (if n = 1 then ECC_ECC_ERROR else ECC_UNCORRECTABLE_ERROR, d)"
    by (simp add: ecc_correct_data_def Let_def ECC_MASK_def count)
  then show ?thesis
    unfolding n_def .
qed

text \<open>
  C1. The claim is that a syndrome with exactly one set bit, for which the pair test
  of step 3 fails, is classified \<open>ECC_ECC_ERROR\<close>, and one with more than one set bit
  \<open>ECC_UNCORRECTABLE_ERROR\<close>. The counting loop starts at the mask \<open>0x00800000\<close> and so
  looks at bits 0 to 23 of the 28-bit syndrome only. The syndrome \<open>0x01000000\<close> has one
  set bit (bit 24) and is classified \<open>ECC_UNCORRECTABLE_ERROR\<close>; the syndrome
  \<open>0x01000001\<close> has two set bits and is classified \<open>ECC_ECC_ERROR\<close>.
\<close>

theorem ecc_count_misses_high_bits:
  "ecc_correct_data 0x01000000 0 d = (ECC_UNCORRECTABLE_ERROR, d)
   \<and> ecc_correct_data 0x01000001 0 d = (ECC_ECC_ERROR, d)"
  by (simp add: ecc_correct_data_def syndrome_of_xor ECC_MASK_def Let_def count_loop.simps)

section \<open>Properties of the status resolution\<close>

lemma wait_pin_ready: "p k \<Longrightarrow> wait_pin p k = Some (Suc k)"
  by (subst wait_pin.simps) simp

lemma wait_pin_busy: "\<not> p k \<Longrightarrow> wait_pin p k = wait_pin p (Suc k)"
  by (subst wait_pin.simps) simp

text \<open>The wait returns as soon as some later sample of the pin is high.\<close>

lemma wait_pin_returns:
  "p (k + n) \<Longrightarrow> \<exists>m. wait_pin p k = Some m \<and> k < m \<and> m \<le> Suc (k + n)"
proof (induction n arbitrary: k)
  case 0
  then show ?case
    by (simp add: wait_pin_ready)
next
  case (Suc n)
  show ?case
  proof (cases "p k")
    case True
    then show ?thesis
      by (simp add: wait_pin_ready)
  next
    case False
    from Suc.prems have "p (Suc k + n)"
      by simp
    from Suc.IH [OF this] obtain m
      where "wait_pin p (Suc k) = Some m" "Suc k < m" "m \<le> Suc (Suc k + n)"
      by blast
    with False show ?thesis
      by (simp add: wait_pin_busy)
  qed
qed

lemma WAIT_FLASH_READY_returns:
  assumes "pin h (pin_pos h + n)"
  shows "\<exists>k. WAIT_FLASH_READY h = Some (h\<lparr>pin_pos := k\<rparr>)"
proof -
  from wait_pin_returns [of "pin h" "pin_pos h" n] assms obtain m
    where "wait_pin (pin h) (pin_pos h) = Some m"
    by blast
  then have "WAIT_FLASH_READY h = Some (h\<lparr>pin_pos := m\<rparr>)"
    by (simp add: WAIT_FLASH_READY_def)
  then show ?thesis
    by blast
qed

text \<open>The loop is left with the budget used up or with the status \<open>NAND_READY\<close>.\<close>

lemma status_loop_exit:
  "status_loop c h t st = (h', t', st') \<Longrightarrow> t' = 0 \<or> st' = NAND_READY c"
proof (induction c h t st rule: status_loop.induct)
  case (1 c h timeout status)
  show ?case
  proof (cases "status \<noteq> NAND_READY c \<and> timeout \<noteq> 0")
    case True
    with "1.prems" "1.IH" show ?thesis
      by (subst (asm) status_loop.simps) (auto simp add: Let_def split: prod.splits)
  next
    case False
    with "1.prems" show ?thesis
      by (subst (asm) status_loop.simps) auto
  qed
qed

text \<open>
  So \<open>fsmc_nand_get_status\<close> returns \<open>NAND_READY\<close> or \<open>NAND_TIMEOUT_ERROR\<close> and nothing else,
  whatever the status bytes are.
\<close>

lemma get_status_ready_or_timeout:
  "fsmc_nand_get_status c h = Some (st, h')
   \<Longrightarrow> st = NAND_READY c \<or> st = NAND_TIMEOUT_ERROR c"
  by (auto simp add: fsmc_nand_get_status_def Let_def
      split: option.splits prod.splits if_splits dest: status_loop_exit)

text \<open>
  C2. The claim is that a status read which sees the error bit makes the result
  \<open>NAND_ERROR\<close>, and that \<open>NAND_TIMEOUT_ERROR\<close> results only when every read within the budget
  saw the chip busy. With error bit \<open>0x01\<close> and ready bit \<open>0x40\<close>: when both reads see
  the error bit the result is \<open>NAND_TIMEOUT_ERROR\<close> (\<open>0x80\<close>), not \<open>NAND_ERROR\<close>; and when the
  first read sees the chip busy and the second sees it ready the result is
  \<open>NAND_TIMEOUT_ERROR\<close> as well. The loop does not stop on \<open>NAND_ERROR\<close>, and the test
  \<open>timeout == 0\<close> after the loop replaces the status of the last permitted read.
\<close>

theorem get_status_error_and_late_ready_time_out:
  "map_option fst (fsmc_nand_get_status example_config (example_hw (\<lambda>k. 0x01))) = Some 0x80
   \<and> map_option fst
       (fsmc_nand_get_status example_config (example_hw (\<lambda>k. if k = 0 then 0x00 else 0x40)))
     = Some 0x80"
  by (simp add: fsmc_nand_get_status_def WAIT_FLASH_READY_def wait_pin_ready example_hw_def
      example_config_def status_loop.simps emit_def read_port_def Let_def)

section \<open>Properties of the geometry decoder\<close>

lemma and3_cases: "unat ((x :: u8) AND 0x03) \<in> {0, 1, 2, 3}"
proof -
  have "x AND 0x03 \<le> 0x03"
    by (rule word_and_le1)
  then have "unat (x AND 0x03) \<le> 3"
    by (simp add: word_le_nat_alt)
  then show ?thesis
    by auto
qed

lemma and30_cases: "unat (drop_bit 4 ((x :: u8) AND 0x30)) \<in> {0, 1, 2, 3}"
proof -
  have "x AND 0x30 \<le> 0x30"
    by (rule word_and_le1)
  then have "unat (x AND 0x30) \<le> 48"
    by (simp add: word_le_nat_alt)
  moreover have "unat (drop_bit 4 (x AND 0x30)) = unat (x AND 0x30) div 2 ^ 4"
    by (simp only: unat_drop_bit_eq) (simp only: drop_bit_eq_div)
  ultimately have "unat (drop_bit 4 (x AND 0x30)) \<le> 3"
    by simp
  then show ?thesis
    by auto
qed

lemma fill_spec_geometry:
  fixes nid :: nand_id_t and f0 :: flash_chip_spec_t
  defines "f \<equiv> fill_spec (extract_info nid) f0"
  shows "page_size f = data_size f + spare_size f
       \<and> block_size f = pages_per_block f * data_size f
       \<and> unat (block_size f) = unat (pages_per_block f) * unat (data_size f)"
proof -
  have ps: "page_size f = data_size f + spare_size f"
    by (simp add: f_def fill_spec_def Let_def)
  have ds: "data_size f = push_bit (unat (id4 nid AND 0x03)) 1024"
    by (simp add: f_def fill_spec_def extract_info_def Let_def)
  have bs: "block_size f = push_bit (unat (drop_bit 4 (id4 nid AND 0x30))) (64 * 1024)"
    by (simp add: f_def fill_spec_def extract_info_def Let_def)
  have ppb: "pages_per_block f = block_size f div data_size f"
    by (simp add: f_def fill_spec_def Let_def)
  from and3_cases [of "id4 nid"] and30_cases [of "id4 nid"]
  have "block_size f = pages_per_block f * data_size f"
    unfolding ppb ds bs by auto
  moreover from and3_cases [of "id4 nid"] and30_cases [of "id4 nid"]
  have "unat (block_size f) = unat (pages_per_block f) * unat (data_size f)"
    unfolding ppb ds bs by auto
  ultimately show ?thesis
    using ps by simp
qed

text \<open>
  C7. Whatever five identity bytes the port delivers, the chip spec that
  \<open>fsmc_nand_read_id\<close> leaves in \<open>flash_spec[chip]\<close> satisfies
  \<open>page_size = data_size + spare_size\<close> and \<open>block_size = pages_per_block * data_size\<close>; the
  product is exact, also as a product of natural numbers, because the decoded block
  size is a multiple of the decoded data size.
\<close>

theorem read_id_geometry_invariant:
  "(let (err, nid, nand_info', flash_spec', h') = fsmc_nand_read_id h nand_info flash_spec chip;
        f = flash_spec' (unat chip)
    in err = FM_SUCCESS
     \<and> page_size f = data_size f + spare_size f
     \<and> block_size f = pages_per_block f * data_size f
     \<and> unat (block_size f) = unat (pages_per_block f) * unat (data_size f))"
proof -
  obtain err nid nand_info' flash_spec' h'
    where run: "fsmc_nand_read_id h nand_info flash_spec chip
                  = (err, nid, nand_info', flash_spec', h')"
    by (metis prod_cases5)
  then have err: "err = FM_SUCCESS"
    and spec: "flash_spec' (unat chip) = fill_spec (extract_info nid) (flash_spec (unat chip))"
    by (auto simp add: fsmc_nand_read_id_def Let_def split_beta)
  show ?thesis
    unfolding run Let_def prod.case err spec
    by (rule conjI [OF refl fill_spec_geometry])
qed

section \<open>Properties of the row address\<close>

lemma and_ff: "(w :: u32) AND 0xFF = take_bit 8 w"
proof -
  have "(0xFF :: u32) = mask 8"
    by (simp add: mask_eq_exp_minus_1)
  then show ?thesis
    by (simp add: take_bit_eq_mask)
qed

lemma and_ff00: "drop_bit 8 ((w :: u32) AND 0xFF00) = take_bit 8 (drop_bit 8 w)"
proof -
  have e: "(0xFF00 :: u32) = push_bit 8 (mask 8)"
    by (simp add: mask_eq_exp_minus_1 push_bit_eq_mult)
  show ?thesis
    unfolding e by (rule bit_eqI) (auto simp add: bit_simps)
qed

text \<open>The two cycles carry the low 16 bits of the row address.\<close>

lemma row_of_cycles_low16:
  "row_of_cycles (ADDR_1st_CYCLE w) (ADDR_2nd_CYCLE w) = take_bit 16 w"
  unfolding row_of_cycles_def ADDR_1st_CYCLE_def ADDR_2nd_CYCLE_def and_ff and_ff00
  by (rule bit_eqI) (auto simp add: bit_simps)

lemma take_bit_16_id:
  fixes w :: u32
  assumes "unat w < 65536"
  shows "take_bit 16 w = w"
proof -
  from assms have "take_bit 16 (unat w) = unat w"
    by (simp add: take_bit_nat_eq_self_iff)
  then have "unat (take_bit 16 w) = unat w"
    by (simp add: unsigned_take_bit_eq)
  then show ?thesis
    by (simp add: word_unat_eq_iff)
qed

lemma unat_row_address:
  assumes "unat page + unat block * unat (NAND_BLOCK_SIZE c) < 2 ^ 32"
  shows "unat (ROW_ADDRESS c block page) = unat page + unat block * unat (NAND_BLOCK_SIZE c)"
proof -
  have "unat (ROW_ADDRESS c block page) =
          (unat (ucast page :: u32) + unat block * unat (NAND_BLOCK_SIZE c)) mod 2 ^ 32"
    by (simp add: ROW_ADDRESS_def unat_word_ariths mod_simps)
  moreover have "unat (ucast page :: u32) = unat page"
  proof -
    have "unat page < 2 ^ 16"
      using unsigned_less [of page] by simp
    then have "unat page < 2 ^ 32"
      by simp
    then show ?thesis
      by (simp add: unsigned_ucast_eq take_bit_nat_eq_self_iff)
  qed
  ultimately show ?thesis
    using assms by simp
qed

lemma k9f2g08_geometry:
  "num_blocks (fill_spec (extract_info k9f2g08_id) flash_spec_init) = 2048"
  "pages_per_block (fill_spec (extract_info k9f2g08_id) flash_spec_init) = 64"
  by (simp_all add: fill_spec_def extract_info_def k9f2g08_id_def Let_def)

text \<open>
  C8 as stated fails. For the geometry decoded from the identity bytes
  \<open>EC DA 10 95 44\<close> (2048 blocks of 64 pages) and \<open>NAND_BLOCK_SIZE\<close> equal to its 64 pages per
  block, block 1024 and page 0 are valid, the row address is 65536, and the two address
  bytes are both 0: they do not reconstruct it.
\<close>

theorem row_address_round_trip_counterexample:
  "(1024 :: u32) < num_blocks (fill_spec (extract_info k9f2g08_id) flash_spec_init)
   \<and> (0 :: u32) < pages_per_block (fill_spec (extract_info k9f2g08_id) flash_spec_init)
   \<and> NAND_BLOCK_SIZE example_config
       = pages_per_block (fill_spec (extract_info k9f2g08_id) flash_spec_init)
   \<and> ROW_ADDRESS example_config 1024 0 = 65536
   \<and> row_of_cycles (ADDR_1st_CYCLE (ROW_ADDRESS example_config 1024 0))
        (ADDR_2nd_CYCLE (ROW_ADDRESS example_config 1024 0))
       \<noteq> ROW_ADDRESS example_config 1024 0"
  by (simp add: k9f2g08_geometry example_config_def ROW_ADDRESS_def ADDR_1st_CYCLE_def
      ADDR_2nd_CYCLE_def row_of_cycles_def)

text \<open>
  C8 as amended. \<open>ROW_ADDRESS\<close> multiplies by the constant \<open>NAND_BLOCK_SIZE\<close>. On a geometry
  whose pages per block equal that constant and whose \<open>num_blocks * pages_per_block\<close> is
  at most 65536 (\<open>nb\<close> stands for \<open>num_blocks\<close>; the static \<open>flash_spec\<close> has 1024 * 64),
  every block below \<open>num_blocks\<close> and page below \<open>pages_per_block\<close> has the row address
  \<open>page + block * pages_per_block\<close>, without wrap-around, and the two address bytes
  reconstruct it.
\<close>

theorem row_address_two_cycles:
  assumes "unat block < nb"
    and "unat page < unat (NAND_BLOCK_SIZE c)"
    and "nb * unat (NAND_BLOCK_SIZE c) \<le> 65536"
  shows "unat (ROW_ADDRESS c block page) = unat page + unat block * unat (NAND_BLOCK_SIZE c)
       \<and> row_of_cycles (ADDR_1st_CYCLE (ROW_ADDRESS c block page))
            (ADDR_2nd_CYCLE (ROW_ADDRESS c block page)) = ROW_ADDRESS c block page"
proof -
  let ?n = "unat (NAND_BLOCK_SIZE c)"
  from assms(1) have "Suc (unat block) \<le> nb"
    by simp
  then have "Suc (unat block) * ?n \<le> nb * ?n"
    by (rule mult_le_mono1)
  with assms(2,3) have bound: "unat page + unat block * ?n < 65536"
    by simp
  then have row: "unat (ROW_ADDRESS c block page) = unat page + unat block * ?n"
    by (intro unat_row_address) simp
  with bound have "unat (ROW_ADDRESS c block page) < 65536"
    by simp
  then show ?thesis
    using row by (simp add: row_of_cycles_low16 take_bit_16_id)
qed

theorem row_address_two_cycles_witness:
  "unat (ROW_ADDRESS example_config 1023 63) = 65535
   \<and> ADDR_1st_CYCLE (ROW_ADDRESS example_config 1023 63) = 0xFF
   \<and> ADDR_2nd_CYCLE (ROW_ADDRESS example_config 1023 63) = 0xFF
   \<and> row_of_cycles 0xFF 0xFF = ROW_ADDRESS example_config 1023 63"
  using row_address_two_cycles [of 1023 1024 63 example_config]
  by (simp add: example_config_def ROW_ADDRESS_def ADDR_1st_CYCLE_def ADDR_2nd_CYCLE_def)

section \<open>Properties of page read and page program\<close>

lemma word_of_bytes:
  "ucast (ucast v :: u8) OR push_bit 8 (ucast (ucast (drop_bit 8 v) :: u8))
     OR push_bit 16 (ucast (ucast (drop_bit 16 v) :: u8))
     OR push_bit 24 (ucast (ucast (drop_bit 24 v) :: u8)) = (v :: u32)"
proof (rule bit_eqI)
  fix n
  assume "possible_bit TYPE(u32) n"
  then have n: "n < 32"
    by simp
  consider "n < 8" | "8 \<le> n" "n < 16" | "16 \<le> n" "n < 24" | "24 \<le> n"
    by linarith
  then show "bit (ucast (ucast v :: u8) OR push_bit 8 (ucast (ucast (drop_bit 8 v) :: u8))
     OR push_bit 16 (ucast (ucast (drop_bit 16 v) :: u8))
     OR push_bit 24 (ucast (ucast (drop_bit 24 v) :: u8)) :: u32) n = bit v n"
    using n by cases (auto simp add: bit_simps)
qed

lemma load32_store32: "load32 (store32 buf off v) off = v"
  by (simp add: load32_def store32_def word_of_bytes)

lemma load32_store32_other:
  "off + 4 \<le> off' \<or> off' + 4 \<le> off \<Longrightarrow> load32 (store32 buf off' v) off = load32 buf off"
  by (auto simp add: load32_def store32_def)

lemma load32_two_copies:
  "load32 (store32 (store32 s 8 v) 12 v) 8 = v"
  "load32 (store32 (store32 s 8 v) 12 v) 12 = v"
  by (simp_all add: load32_store32 load32_store32_other)

lemma store32_twice_same:
  assumes "i < 4"
  shows "store32 (store32 s 8 v) 12 v (8 + i) = store32 (store32 s 8 v) 12 v (12 + i)"
proof -
  from assms consider "i = 0" | "i = 1" | "i = 2" | "i = 3"
    by linarith
  then show ?thesis
    by cases (simp_all add: store32_def)
qed

lemma load32_cong:
  assumes "\<And>i. i < 4 \<Longrightarrow> a (off + i) = b (off + i)"
  shows "load32 a off = load32 b off"
  using assms [of 0] assms [of 1] assms [of 2] assms [of 3]
  by (simp add: load32_def)

lemma upt_examples:
  "[0..<4] = [0, 1, 2, 3]"
  "[0..<16] = [0, 1, 2, 3, 4, 5, 6, 7, 8, 9, 10, 11, 12, 13, 14, 15]"
  by code_simp+

lemma ASYNC_MODE_nonzero: "ASYNC_MODE \<noteq> 0"
  by (simp add: ASYNC_MODE_def)

text \<open>Unless it corrects a bit, \<open>ecc_correct_data\<close> leaves the data alone.\<close>

lemma ecc_correct_data_keeps:
  "fst (ecc_correct_data c s d) \<noteq> ECC_CORRECTABLE_ERROR \<Longrightarrow> snd (ecc_correct_data c s d) = d"
  by (simp add: ecc_correct_data_def Let_def split: if_splits)

lemma ecc_retry_match: "ecc_retry calc sp calc retry d = (FM_SUCCESS, d)"
  by (subst ecc_retry.simps) simp

text \<open>After the \<open>goto\<close> the verdict on the second code is final.\<close>

lemma ecc_retry_second:
  "ecc_retry calc sp x (Suc 0) d =
     (if calc = x then (FM_SUCCESS, d)
      else case ecc_correct_data calc x d of
             (ECC_NO_ERROR, d') \<Rightarrow> (FM_SUCCESS, d')
           | (ECC_CORRECTABLE_ERROR, d') \<Rightarrow> (FM_SUCCESS, d')
           | (ECC_ECC_ERROR, d') \<Rightarrow> (FM_ECC_ERROR, d')
           | (ECC_UNCORRECTABLE_ERROR, d') \<Rightarrow> (FM_ECC_ERROR, d'))"
  by (subst ecc_retry.simps) (simp split: prod.splits ecc_result.splits)

lemma ecc_retry_first_self_error:
  assumes "calc \<noteq> p" and "fst (ecc_correct_data calc p d) = ECC_ECC_ERROR"
  shows "ecc_retry calc sp p 0 d = ecc_retry calc sp (load32 sp 12) (Suc 0) d"
proof -
  from assms(2) have "snd (ecc_correct_data calc p d) = d"
    by (simp add: ecc_correct_data_keeps)
  with assms(2) have "ecc_correct_data calc p d = (ECC_ECC_ERROR, d)"
    by (metis prod.collapse)
  with assms(1) show ?thesis
    by (subst ecc_retry.simps) simp
qed

text \<open>
  A page read with a data buffer under \<open>HW_ECC\<close>, on a chip that becomes ready, with a
  spare buffer from the caller or a local array that holds the spare area: the data
  area and the spare area come from the port one after the other, the computed code is
  the complement of the parity of the data bytes, and the result is that of
  \<open>ecc_retry\<close> started on the code at spare offset 8.
\<close>

lemma read_page_data_hw_ecc:
  fixes c fs h chip block page d sarg
  defines "ds \<equiv> unat (data_size (fs (unat chip)))"
  defines "ss \<equiv> unat (spare_size (fs (unat chip)))"
  defines "data \<equiv> (\<lambda>i. if i < ds then port h (port_pos h + i) else d i)"
  defines "calc \<equiv> ecc_unit h (map (\<lambda>i. port h (port_pos h + i)) [0..<ds]) XOR 0xFFFFFFFF"
  defines "sp \<equiv> (\<lambda>i. if i < ss then port h (port_pos h + ds + i)
                      else (case sarg of None \<Rightarrow> uninit h | Some s \<Rightarrow> s) i)"
  assumes "HW_ECC c" and "pin h (pin_pos h + n)"
    and "sarg \<noteq> None
         \<or> (0 < MAX_SECTORS_PER_PAGE c \<and> ss \<le> 16 * MAX_SECTORS_PER_PAGE c)"
  shows "\<exists>h'. fsmc_nand_read_page c fs h chip block page (Some d) sarg =
           Some (fst (ecc_retry calc sp (load32 sp 8) 0 data),
                 Some (snd (ecc_retry calc sp (load32 sp 8) 0 data)),
                 (if sarg = None then None else Some sp), h')"
proof -
  let ?h1 = "emit h
              [CMD NAND_CMD_READ_1, ADDR 0x00, ADDR 0x00,
               ADDR (ADDR_1st_CYCLE (ROW_ADDRESS c block page)),
               ADDR (ADDR_2nd_CYCLE (ROW_ADDRESS c block page)),
               CMD NAND_CMD_READ_TRUE]"
  have "pin ?h1 (pin_pos ?h1 + n)"
    using assms(7) by (simp add: emit_def)
  from WAIT_FLASH_READY_returns [OF this] obtain k
    where w: "WAIT_FLASH_READY ?h1 = Some (?h1\<lparr>pin_pos := k\<rparr>)"
    by blast
  show ?thesis
    using assms(6,8) w
    by (cases sarg)
      (auto simp add: fsmc_nand_read_page_def Let_def DATA_READ_def FSMC_NANDECCCmd_def
        FSMC_GetECC_def emit_def ds_def ss_def data_def calc_def sp_def split_beta not_less
        cong: if_cong)
qed

text \<open>
  The result code of the verification as a function of the computed code, the code it
  starts on and the code at spare offset 12: the second code is looked at only when the
  first is classified \<open>ECC_ECC_ERROR\<close>, and its verdict is final.
\<close>

lemma ecc_retry_code:
  "fst (ecc_retry calc sp p 0 d) =
     (if p = calc then FM_SUCCESS
      else case fst (ecc_correct_data calc p d) of
             ECC_NO_ERROR \<Rightarrow> FM_SUCCESS
           | ECC_CORRECTABLE_ERROR \<Rightarrow> FM_SUCCESS
           | ECC_ECC_ERROR \<Rightarrow>
               (if load32 sp 12 = calc then FM_SUCCESS
                else case fst (ecc_correct_data calc (load32 sp 12) d) of
                       ECC_NO_ERROR \<Rightarrow> FM_SUCCESS
                     | ECC_CORRECTABLE_ERROR \<Rightarrow> FM_SUCCESS
                     | ECC_ECC_ERROR \<Rightarrow> FM_ECC_ERROR
                     | ECC_UNCORRECTABLE_ERROR \<Rightarrow> FM_ECC_ERROR)
           | ECC_UNCORRECTABLE_ERROR \<Rightarrow> FM_ECC_ERROR)"
proof (cases "p = calc")
  case True
  then show ?thesis
    by (simp add: ecc_retry_match)
next
  case False
  show ?thesis
  proof (cases "fst (ecc_correct_data calc p d) = ECC_ECC_ERROR")
    case True
    with False have "ecc_retry calc sp p 0 d = ecc_retry calc sp (load32 sp 12) (Suc 0) d"
      by (intro ecc_retry_first_self_error) auto
    with False True show ?thesis
      by (auto simp add: ecc_retry_second split: prod.splits ecc_result.splits)
  next
    case other: False
    with False show ?thesis
      by (subst ecc_retry.simps) (auto split: prod.splits ecc_result.splits)
  qed
qed

lemma read_page_code:
  fixes c fs h chip block page d sarg
  defines "ds \<equiv> unat (data_size (fs (unat chip)))"
  defines "ss \<equiv> unat (spare_size (fs (unat chip)))"
  defines "data \<equiv> (\<lambda>i. if i < ds then port h (port_pos h + i) else d i)"
  defines "calc \<equiv> ecc_unit h (map (\<lambda>i. port h (port_pos h + i)) [0..<ds]) XOR 0xFFFFFFFF"
  defines "sp \<equiv> (\<lambda>i. if i < ss then port h (port_pos h + ds + i)
                      else (case sarg of None \<Rightarrow> uninit h | Some s \<Rightarrow> s) i)"
  assumes ecc: "HW_ECC c"
    and ready: "pin h (pin_pos h + n)"
    and fits: "sarg \<noteq> None
               \<or> (0 < MAX_SECTORS_PER_PAGE c \<and> ss \<le> 16 * MAX_SECTORS_PER_PAGE c)"
  shows "map_option fst (fsmc_nand_read_page c fs h chip block page (Some d) sarg) =
           Some (if load32 sp 8 = calc then FM_SUCCESS
                 else case fst (ecc_correct_data calc (load32 sp 8) data) of
                        ECC_NO_ERROR \<Rightarrow> FM_SUCCESS
                      | ECC_CORRECTABLE_ERROR \<Rightarrow> FM_SUCCESS
                      | ECC_ECC_ERROR \<Rightarrow>
                          (if load32 sp 12 = calc then FM_SUCCESS
                           else case fst (ecc_correct_data calc (load32 sp 12) data) of
                                  ECC_NO_ERROR \<Rightarrow> FM_SUCCESS
                                | ECC_CORRECTABLE_ERROR \<Rightarrow> FM_SUCCESS
                                | ECC_ECC_ERROR \<Rightarrow> FM_ECC_ERROR
                                | ECC_UNCORRECTABLE_ERROR \<Rightarrow> FM_ECC_ERROR)
                      | ECC_UNCORRECTABLE_ERROR \<Rightarrow> FM_ECC_ERROR)"
proof -
  from read_page_data_hw_ecc [OF ecc ready, where fs = fs and chip = chip and block = block
      and page = page and d = d and sarg = sarg] fits
  obtain h' where run:
    "fsmc_nand_read_page c fs h chip block page (Some d) sarg =
       Some (fst (ecc_retry calc sp (load32 sp 8) 0 data),
             Some (snd (ecc_retry calc sp (load32 sp 8) 0 data)),
             (if sarg = None then None else Some sp), h')"
    unfolding ds_def ss_def data_def calc_def sp_def by blast
  show ?thesis
    unfolding run by (simp only: option.map fst_conv ecc_retry_code)
qed

lemma read_page_primary_matches:
  fixes c fs h chip block page d sarg
  defines "ds \<equiv> unat (data_size (fs (unat chip)))"
  defines "ss \<equiv> unat (spare_size (fs (unat chip)))"
  defines "data \<equiv> (\<lambda>i. if i < ds then port h (port_pos h + i) else d i)"
  defines "calc \<equiv> ecc_unit h (map (\<lambda>i. port h (port_pos h + i)) [0..<ds]) XOR 0xFFFFFFFF"
  defines "sp \<equiv> (\<lambda>i. if i < ss then port h (port_pos h + ds + i)
                      else (case sarg of None \<Rightarrow> uninit h | Some s \<Rightarrow> s) i)"
  assumes ecc: "HW_ECC c"
    and ready: "pin h (pin_pos h + n)"
    and fits: "sarg \<noteq> None
               \<or> (0 < MAX_SECTORS_PER_PAGE c \<and> ss \<le> 16 * MAX_SECTORS_PER_PAGE c)"
    and match: "load32 sp 8 = calc"
  shows "map_option fst (fsmc_nand_read_page c fs h chip block page (Some d) sarg)
           = Some FM_SUCCESS
       \<and> map_option (fst \<circ> snd) (fsmc_nand_read_page c fs h chip block page (Some d) sarg)
           = Some (Some data)"
proof -
  from read_page_data_hw_ecc [OF ecc ready, where fs = fs and chip = chip and block = block
      and page = page and d = d and sarg = sarg] fits
  obtain h' where run:
    "fsmc_nand_read_page c fs h chip block page (Some d) sarg =
       Some (fst (ecc_retry calc sp (load32 sp 8) 0 data),
             Some (snd (ecc_retry calc sp (load32 sp 8) 0 data)),
             (if sarg = None then None else Some sp), h')"
    unfolding ds_def ss_def data_def calc_def sp_def by blast
  show ?thesis
    unfolding run match by (simp add: ecc_retry_match)
qed

lemma read_page_backup_matches:
  fixes c fs h chip block page d sarg
  defines "ds \<equiv> unat (data_size (fs (unat chip)))"
  defines "ss \<equiv> unat (spare_size (fs (unat chip)))"
  defines "data \<equiv> (\<lambda>i. if i < ds then port h (port_pos h + i) else d i)"
  defines "calc \<equiv> ecc_unit h (map (\<lambda>i. port h (port_pos h + i)) [0..<ds]) XOR 0xFFFFFFFF"
  defines "sp \<equiv> (\<lambda>i. if i < ss then port h (port_pos h + ds + i)
                      else (case sarg of None \<Rightarrow> uninit h | Some s \<Rightarrow> s) i)"
  assumes ecc: "HW_ECC c"
    and ready: "pin h (pin_pos h + n)"
    and fits: "sarg \<noteq> None
               \<or> (0 < MAX_SECTORS_PER_PAGE c \<and> ss \<le> 16 * MAX_SECTORS_PER_PAGE c)"
    and mismatch: "load32 sp 8 \<noteq> calc"
    and self: "fst (ecc_correct_data calc (load32 sp 8) data) = ECC_ECC_ERROR"
    and match: "load32 sp 12 = calc"
  shows "map_option fst (fsmc_nand_read_page c fs h chip block page (Some d) sarg)
           = Some FM_SUCCESS
       \<and> map_option (fst \<circ> snd) (fsmc_nand_read_page c fs h chip block page (Some d) sarg)
           = Some (Some data)"
proof -
  from read_page_data_hw_ecc [OF ecc ready, where fs = fs and chip = chip and block = block
      and page = page and d = d and sarg = sarg] fits
  obtain h' where run:
    "fsmc_nand_read_page c fs h chip block page (Some d) sarg =
       Some (fst (ecc_retry calc sp (load32 sp 8) 0 data),
             Some (snd (ecc_retry calc sp (load32 sp 8) 0 data)),
             (if sarg = None then None else Some sp), h')"
    unfolding ds_def ss_def data_def calc_def sp_def by blast
  have "ecc_retry calc sp (load32 sp 8) 0 data
          = ecc_retry calc sp (load32 sp 12) (Suc 0) data"
    using mismatch self by (intro ecc_retry_first_self_error) auto
  then have "ecc_retry calc sp (load32 sp 8) 0 data = ecc_retry calc sp calc (Suc 0) data"
    by (simp only: match)
  then show ?thesis
    unfolding run by (simp add: ecc_retry_match)
qed

text \<open>
  C5. Take a page read with a data buffer under \<open>HW_ECC\<close>, with a spare buffer from the
  caller or a local array that holds the spare area (\<open>spare_size\<close> at most
  \<open>16 * MAX_SECTORS_PER_PAGE\<close>). Let \<open>calc\<close> be the computed code, \<open>primary\<close> the code at spare
  offset 8 and \<open>backup\<close> the code at spare offset 12. If \<open>primary\<close> differs from \<open>calc\<close> and
  is classified \<open>ECC_ECC_ERROR\<close>, then the result is decided by one verification of
  \<open>backup\<close> and nothing else: \<open>FM_SUCCESS\<close> when \<open>backup\<close> equals \<open>calc\<close> or is classified
  \<open>ECC_NO_ERROR\<close> or \<open>ECC_CORRECTABLE_ERROR\<close> (with the data as that verification leaves
  it), \<open>FM_ECC_ERROR\<close> when it is classified \<open>ECC_ECC_ERROR\<close> again or
  \<open>ECC_UNCORRECTABLE_ERROR\<close>. The call returns whenever the chip becomes ready.
\<close>

theorem read_page_retries_backup_once:
  fixes c fs h chip block page d sarg
  defines "ds \<equiv> unat (data_size (fs (unat chip)))"
  defines "ss \<equiv> unat (spare_size (fs (unat chip)))"
  defines "data \<equiv> (\<lambda>i. if i < ds then port h (port_pos h + i) else d i)"
  defines "calc \<equiv> ecc_unit h (map (\<lambda>i. port h (port_pos h + i)) [0..<ds]) XOR 0xFFFFFFFF"
  defines "sp \<equiv> (\<lambda>i. if i < ss then port h (port_pos h + ds + i)
                      else (case sarg of None \<Rightarrow> uninit h | Some s \<Rightarrow> s) i)"
  defines "primary \<equiv> load32 sp 8"
  defines "backup \<equiv> load32 sp 12"
  assumes ecc: "HW_ECC c"
    and ready: "pin h (pin_pos h + n)"
    and fits: "sarg \<noteq> None
               \<or> (0 < MAX_SECTORS_PER_PAGE c \<and> ss \<le> 16 * MAX_SECTORS_PER_PAGE c)"
    and mismatch: "primary \<noteq> calc"
    and self: "fst (ecc_correct_data calc primary data) = ECC_ECC_ERROR"
  shows "map_option fst (fsmc_nand_read_page c fs h chip block page (Some d) sarg) =
           Some (if backup = calc then FM_SUCCESS
                 else case fst (ecc_correct_data calc backup data) of
                        ECC_NO_ERROR \<Rightarrow> FM_SUCCESS
                      | ECC_CORRECTABLE_ERROR \<Rightarrow> FM_SUCCESS
                      | ECC_ECC_ERROR \<Rightarrow> FM_ECC_ERROR
                      | ECC_UNCORRECTABLE_ERROR \<Rightarrow> FM_ECC_ERROR)
       \<and> map_option (fst \<circ> snd) (fsmc_nand_read_page c fs h chip block page (Some d) sarg) =
           Some (Some (if backup = calc then data
                       else snd (ecc_correct_data calc backup data)))"
proof -
  from read_page_data_hw_ecc [OF ecc ready, where fs = fs and chip = chip and block = block
      and page = page and d = d and sarg = sarg] fits
  obtain h' where run:
    "fsmc_nand_read_page c fs h chip block page (Some d) sarg =
       Some (fst (ecc_retry calc sp primary 0 data),
             Some (snd (ecc_retry calc sp primary 0 data)),
             (if sarg = None then None else Some sp), h')"
    unfolding ds_def ss_def data_def calc_def sp_def primary_def by blast
  have "ecc_retry calc sp primary 0 data = ecc_retry calc sp backup (Suc 0) data"
    unfolding backup_def using mismatch self
    by (intro ecc_retry_first_self_error) auto
  then show ?thesis
    unfolding run
    by (auto simp add: ecc_retry_second split: prod.splits ecc_result.splits)
qed

text \<open>
  Four data bytes and sixteen spare bytes from the port, read into the local array of
  64 bytes; the parity unit returns 0, so the computed code is \<open>0xFFFFFFFF\<close>. The primary
  copy \<open>0xFFFFFFFD\<close> differs from it in one bit. With the backup copy intact the read
  succeeds; with the backup copy \<open>0xFFFFFFFB\<close> it fails with \<open>FM_ECC_ERROR\<close>.
\<close>

theorem read_page_retries_backup_once_witness:
  "map_option fst
     (fsmc_nand_read_page example_config small_spec
        (example_hw (\<lambda>k. if k < 4 then 0xAA else if k = 12 then 0xFD else 0xFF))
        0 0 0 (Some (\<lambda>i. 0)) None) = Some FM_SUCCESS
   \<and> map_option fst
     (fsmc_nand_read_page example_config small_spec
        (example_hw (\<lambda>k. if k < 4 then 0xAA else if k = 12 then 0xFD
                          else if k = 16 then 0xFB else 0xFF))
        0 0 0 (Some (\<lambda>i. 0)) None) = Some FM_ECC_ERROR"
  using read_page_retries_backup_once [where c = example_config and fs = small_spec
      and chip = 0 and block = 0 and page = 0 and d = "\<lambda>i. 0" and sarg = None and n = 0
      and h = "example_hw (\<lambda>k. if k < 4 then 0xAA else if k = 12 then 0xFD else 0xFF)"]
    read_page_retries_backup_once [where c = example_config and fs = small_spec
      and chip = 0 and block = 0 and page = 0 and d = "\<lambda>i. 0" and sarg = None and n = 0
      and h = "example_hw (\<lambda>k. if k < 4 then 0xAA else if k = 12 then 0xFD
                                else if k = 16 then 0xFB else 0xFF)"]
  by (simp add: example_config_def example_hw_def small_spec_def flash_spec_init_def load32_def
      ecc_correct_data_def syndrome_of_def ECC_MASK28_def ECC_MASK_def Let_def count_loop.simps)

text \<open>
  With \<open>HW_ECC\<close> a read with two null buffers never returns \<open>FM_ERROR\<close>: the null spare
  pointer has been replaced by the local array before the check. Without \<open>HW_ECC\<close> the
  check rejects the call.
\<close>

lemma read_page_null_null_hw_ecc:
  assumes "HW_ECC c" and "fsmc_nand_read_page c fs h chip block page None None = Some r"
  shows "fst r = FM_SUCCESS"
  using assms
  by (auto simp add: fsmc_nand_read_page_def Let_def split_beta split: option.splits if_splits)

lemma read_page_null_null_no_ecc:
  assumes "\<not> HW_ECC c"
  shows "fsmc_nand_read_page c fs h chip block page None None = Some (FM_ERROR, None, None, h)"
  using assms by (simp add: fsmc_nand_read_page_def)

text \<open>
  C3. The claim is that \<open>fsmc_nand_read_page\<close> with both buffers null returns \<open>FM_ERROR\<close>.
  With \<open>HW_ECC\<close>, the static geometry and a chip that is ready, the call sends the read
  command, transfers the spare area into the local array and returns \<open>FM_SUCCESS\<close>.
\<close>

theorem read_page_null_buffers_hw_ecc:
  "map_option fst
     (fsmc_nand_read_page example_config (\<lambda>chip. flash_spec_init) (example_hw (\<lambda>k. 0xFF))
        0 0 0 None None) = Some FM_SUCCESS"
  by (simp add: fsmc_nand_read_page_def example_config_def example_hw_def flash_spec_init_def
      Let_def emit_def WAIT_FLASH_READY_def wait_pin_ready DATA_READ_def)

text \<open>
  A page program with a data buffer under \<open>HW_ECC\<close>: the code is the complement of the
  parity of the data bytes, it is stored at spare offsets 8 and 12, and the spare area is
  sent after the data area.
\<close>

lemma write_page_data_hw_ecc:
  fixes c fs h chip block page d sarg is_last
  defines "ds \<equiv> unat (data_size (fs (unat chip)))"
  defines "ss \<equiv> unat (spare_size (fs (unat chip)))"
  defines "code \<equiv> ecc_unit h (map d [0..<ds]) XOR 0xFFFFFFFF"
  defines "s0 \<equiv> (case sarg of
                    None \<Rightarrow> (\<lambda>i. if i < 16 * MAX_SECTORS_PER_PAGE c then 0xFF else uninit h i)
                  | Some s \<Rightarrow> s)"
  defines "sw \<equiv> store32 (store32 s0 8 code) 12 code"
  assumes "HW_ECC c"
  shows "\<exists>hw. fsmc_nand_write_page c fs h chip block page (Some d) sarg is_last =
           Some (FM_SUCCESS, (if sarg = None then None else Some sw), hw)
         \<and> bus hw = bus h @
             [CMD NAND_CMD_PAGEPROGRAM, ADDR 0x00, ADDR 0x00,
              ADDR (ADDR_1st_CYCLE (ROW_ADDRESS c block page)),
              ADDR (ADDR_2nd_CYCLE (ROW_ADDRESS c block page)),
              DATA (map d [0..<ds]),
              CMD NAND_CMD_RANDOMIN, ADDR 0x00, ADDR 0x08,
              DATA (map sw [0..<ss]),
              CMD NAND_CMD_PAGEPROGRAM_TRUE]"
  using assms(6)
  by (cases sarg)
    (simp_all add: fsmc_nand_write_page_def Let_def DATA_WRITE_def FSMC_NANDECCCmd_def
      FSMC_GetECC_def emit_def ASYNC_MODE_nonzero ds_def ss_def code_def s0_def sw_def)

text \<open>
  C9. Under \<open>HW_ECC\<close>, write side: \<open>fsmc_nand_write_page\<close> with a data buffer returns
  \<open>FM_SUCCESS\<close> and sends, after the data area, the spare buffer \<open>sw\<close> into which it has
  stored the computed code \<open>code\<close> twice: the 32-bit words at offsets 8 and 12 both equal
  \<open>code\<close>, and bytes 8 to 11 equal bytes 12 to 15. Read side, for a read with a data
  buffer on a chip that becomes ready, with a spare buffer from the caller or a local
  array that holds the spare area, with \<open>calc\<close> the code computed during the read and
  \<open>sr\<close> the spare buffer as read: the result code is a function of \<open>calc\<close>, the word at
  offset 8 and the word at offset 12 and of nothing else in the spare area. It is
  \<open>FM_SUCCESS\<close> when the word at offset 8 equals \<open>calc\<close> or is classified \<open>ECC_NO_ERROR\<close> or
  \<open>ECC_CORRECTABLE_ERROR\<close>; it is \<open>FM_ECC_ERROR\<close> when that word is classified
  \<open>ECC_UNCORRECTABLE_ERROR\<close>, whatever the word at offset 12 is; and when the word at
  offset 8 is classified \<open>ECC_ECC_ERROR\<close> it is the verdict on the word at offset 12:
  \<open>FM_SUCCESS\<close> when that equals \<open>calc\<close> or is classified \<open>ECC_NO_ERROR\<close> or
  \<open>ECC_CORRECTABLE_ERROR\<close>, \<open>FM_ECC_ERROR\<close> otherwise. Together: when the read gets back the
  data bytes that were written and the parity unit is the same, and bytes 12 to 15 of
  the spare are those written, and bytes 8 to 11 are either those written or a code
  classified \<open>ECC_ECC_ERROR\<close>, the read returns \<open>FM_SUCCESS\<close> with the data that was written.
\<close>

theorem ecc_copies_offsets_8_and_12:
  fixes c fs chip block page h d sarg is_last hr dr sarg_r n
  defines "ds \<equiv> unat (data_size (fs (unat chip)))"
  defines "ss \<equiv> unat (spare_size (fs (unat chip)))"
  defines "code \<equiv> ecc_unit h (map d [0..<ds]) XOR 0xFFFFFFFF"
  defines "s0 \<equiv> (case sarg of
                    None \<Rightarrow> (\<lambda>i. if i < 16 * MAX_SECTORS_PER_PAGE c then 0xFF else uninit h i)
                  | Some s \<Rightarrow> s)"
  defines "sw \<equiv> store32 (store32 s0 8 code) 12 code"
  defines "data_r \<equiv> (\<lambda>i. if i < ds then port hr (port_pos hr + i) else dr i)"
  defines "calc \<equiv> ecc_unit hr (map (\<lambda>i. port hr (port_pos hr + i)) [0..<ds]) XOR 0xFFFFFFFF"
  defines "sr \<equiv> (\<lambda>i. if i < ss then port hr (port_pos hr + ds + i)
                      else (case sarg_r of None \<Rightarrow> uninit hr | Some s \<Rightarrow> s) i)"
  defines "rd \<equiv> fsmc_nand_read_page c fs hr chip block page (Some dr) sarg_r"
  assumes ecc: "HW_ECC c"
    and ready: "pin hr (pin_pos hr + n)"
    and fits: "sarg_r \<noteq> None
               \<or> (0 < MAX_SECTORS_PER_PAGE c \<and> ss \<le> 16 * MAX_SECTORS_PER_PAGE c)"
  shows "(\<exists>hw. fsmc_nand_write_page c fs h chip block page (Some d) sarg is_last =
                Some (FM_SUCCESS, (if sarg = None then None else Some sw), hw)
              \<and> bus hw = bus h @
                  [CMD NAND_CMD_PAGEPROGRAM, ADDR 0x00, ADDR 0x00,
                   ADDR (ADDR_1st_CYCLE (ROW_ADDRESS c block page)),
                   ADDR (ADDR_2nd_CYCLE (ROW_ADDRESS c block page)),
                   DATA (map d [0..<ds]),
                   CMD NAND_CMD_RANDOMIN, ADDR 0x00, ADDR 0x08,
                   DATA (map sw [0..<ss]),
                   CMD NAND_CMD_PAGEPROGRAM_TRUE])
       \<and> load32 sw 8 = code \<and> load32 sw 12 = code
       \<and> (\<forall>i<4. sw (8 + i) = sw (12 + i))
       \<and> map_option fst rd =
            Some (if load32 sr 8 = calc then FM_SUCCESS
                  else case fst (ecc_correct_data calc (load32 sr 8) data_r) of
                         ECC_NO_ERROR \<Rightarrow> FM_SUCCESS
                       | ECC_CORRECTABLE_ERROR \<Rightarrow> FM_SUCCESS
                       | ECC_ECC_ERROR \<Rightarrow>
                           (if load32 sr 12 = calc then FM_SUCCESS
                            else case fst (ecc_correct_data calc (load32 sr 12) data_r) of
                                   ECC_NO_ERROR \<Rightarrow> FM_SUCCESS
                                 | ECC_CORRECTABLE_ERROR \<Rightarrow> FM_SUCCESS
                                 | ECC_ECC_ERROR \<Rightarrow> FM_ECC_ERROR
                                 | ECC_UNCORRECTABLE_ERROR \<Rightarrow> FM_ECC_ERROR)
                       | ECC_UNCORRECTABLE_ERROR \<Rightarrow> FM_ECC_ERROR)
       \<and> (load32 sr 8 = calc \<longrightarrow> map_option fst rd = Some FM_SUCCESS)
       \<and> (load32 sr 8 \<noteq> calc \<and> fst (ecc_correct_data calc (load32 sr 8) data_r) = ECC_ECC_ERROR
            \<and> load32 sr 12 = calc \<longrightarrow> map_option fst rd = Some FM_SUCCESS)
       \<and> (ecc_unit hr = ecc_unit h \<and> (\<forall>i<ds. port hr (port_pos hr + i) = d i)
            \<and> (\<forall>i<4. sr (12 + i) = sw (12 + i))
            \<and> ((\<forall>i<4. sr (8 + i) = sw (8 + i))
                \<or> fst (ecc_correct_data calc (load32 sr 8) data_r) = ECC_ECC_ERROR)
            \<longrightarrow> map_option fst rd = Some FM_SUCCESS
              \<and> (\<exists>d'. map_option (fst \<circ> snd) rd = Some (Some d') \<and> (\<forall>i<ds. d' i = d i)))"
proof -
  have wr: "\<exists>hw. fsmc_nand_write_page c fs h chip block page (Some d) sarg is_last =
                Some (FM_SUCCESS, (if sarg = None then None else Some sw), hw)
              \<and> bus hw = bus h @
                  [CMD NAND_CMD_PAGEPROGRAM, ADDR 0x00, ADDR 0x00,
                   ADDR (ADDR_1st_CYCLE (ROW_ADDRESS c block page)),
                   ADDR (ADDR_2nd_CYCLE (ROW_ADDRESS c block page)),
                   DATA (map d [0..<ds]),
                   CMD NAND_CMD_RANDOMIN, ADDR 0x00, ADDR 0x08,
                   DATA (map sw [0..<ss]),
                   CMD NAND_CMD_PAGEPROGRAM_TRUE]"
    using write_page_data_hw_ecc [OF ecc, where fs = fs and h = h and chip = chip
        and block = block and page = page and d = d and sarg = sarg and is_last = is_last]
    unfolding ds_def ss_def code_def s0_def sw_def by blast
  have copies: "load32 sw 8 = code" "load32 sw 12 = code"
    unfolding sw_def by (rule load32_two_copies)+
  have same: "\<forall>i<4. sw (8 + i) = sw (12 + i)"
    unfolding sw_def by (simp add: store32_twice_same)
  have verdict: "map_option fst rd =
            Some (if load32 sr 8 = calc then FM_SUCCESS
                  else case fst (ecc_correct_data calc (load32 sr 8) data_r) of
                         ECC_NO_ERROR \<Rightarrow> FM_SUCCESS
                       | ECC_CORRECTABLE_ERROR \<Rightarrow> FM_SUCCESS
                       | ECC_ECC_ERROR \<Rightarrow>
                           (if load32 sr 12 = calc then FM_SUCCESS
                            else case fst (ecc_correct_data calc (load32 sr 12) data_r) of
                                   ECC_NO_ERROR \<Rightarrow> FM_SUCCESS
                                 | ECC_CORRECTABLE_ERROR \<Rightarrow> FM_SUCCESS
                                 | ECC_ECC_ERROR \<Rightarrow> FM_ECC_ERROR
                                 | ECC_UNCORRECTABLE_ERROR \<Rightarrow> FM_ECC_ERROR)
                       | ECC_UNCORRECTABLE_ERROR \<Rightarrow> FM_ECC_ERROR)"
    using read_page_code [OF ecc ready, where fs = fs and chip = chip and d = dr
        and sarg = sarg_r and block = block and page = page] fits
    unfolding ds_def ss_def data_r_def calc_def sr_def rd_def by blast
  have primary: "map_option fst rd = Some FM_SUCCESS
                 \<and> map_option (fst \<circ> snd) rd = Some (Some data_r)"
    if "load32 sr 8 = calc"
    using read_page_primary_matches [OF ecc ready, where fs = fs and chip = chip and d = dr
        and sarg = sarg_r and block = block and page = page] fits that
    unfolding ds_def ss_def data_r_def calc_def sr_def rd_def by blast
  have backup: "map_option fst rd = Some FM_SUCCESS
                \<and> map_option (fst \<circ> snd) rd = Some (Some data_r)"
    if "load32 sr 8 \<noteq> calc" "fst (ecc_correct_data calc (load32 sr 8) data_r) = ECC_ECC_ERROR"
      "load32 sr 12 = calc"
    using read_page_backup_matches [OF ecc ready, where fs = fs and chip = chip and d = dr
        and sarg = sarg_r and block = block and page = page] fits that
    unfolding ds_def ss_def data_r_def calc_def sr_def rd_def by blast
  have trip: "map_option fst rd = Some FM_SUCCESS
              \<and> (\<exists>d'. map_option (fst \<circ> snd) rd = Some (Some d') \<and> (\<forall>i<ds. d' i = d i))"
    if u: "ecc_unit hr = ecc_unit h" and dat: "\<forall>i<ds. port hr (port_pos hr + i) = d i"
      and b: "\<forall>i<4. sr (12 + i) = sw (12 + i)"
      and p: "(\<forall>i<4. sr (8 + i) = sw (8 + i))
              \<or> fst (ecc_correct_data calc (load32 sr 8) data_r) = ECC_ECC_ERROR"
  proof -
    from dat have m: "map (\<lambda>i. port hr (port_pos hr + i)) [0..<ds] = map d [0..<ds]"
      by simp
    have cc: "calc = code"
      unfolding calc_def code_def m u ..
    from b have b12: "load32 sr 12 = calc"
      unfolding cc copies(2) [symmetric] by (intro load32_cong) simp
    have restored: "\<forall>i<ds. data_r i = d i"
      using dat by (simp add: data_r_def)
    have "map_option fst rd = Some FM_SUCCESS
          \<and> map_option (fst \<circ> snd) rd = Some (Some data_r)"
    proof (cases "load32 sr 8 = calc")
      case True
      then show ?thesis
        by (rule primary)
    next
      case False
      have "\<not> (\<forall>i<4. sr (8 + i) = sw (8 + i))"
      proof
        assume "\<forall>i<4. sr (8 + i) = sw (8 + i)"
        then have "load32 sr 8 = load32 sw 8"
          by (intro load32_cong) simp
        with False show False
          by (simp add: copies cc)
      qed
      with p have "fst (ecc_correct_data calc (load32 sr 8) data_r) = ECC_ECC_ERROR"
        by blast
      with False b12 show ?thesis
        by (intro backup)
    qed
    with restored show ?thesis
      by blast
  qed
  have p1: "load32 sr 8 = calc \<longrightarrow> map_option fst rd = Some FM_SUCCESS"
    using primary by blast
  have p2: "load32 sr 8 \<noteq> calc
            \<and> fst (ecc_correct_data calc (load32 sr 8) data_r) = ECC_ECC_ERROR
            \<and> load32 sr 12 = calc \<longrightarrow> map_option fst rd = Some FM_SUCCESS"
    using backup by blast
  have p3: "ecc_unit hr = ecc_unit h \<and> (\<forall>i<ds. port hr (port_pos hr + i) = d i)
            \<and> (\<forall>i<4. sr (12 + i) = sw (12 + i))
            \<and> ((\<forall>i<4. sr (8 + i) = sw (8 + i))
                \<or> fst (ecc_correct_data calc (load32 sr 8) data_r) = ECC_ECC_ERROR)
            \<longrightarrow> map_option fst rd = Some FM_SUCCESS
              \<and> (\<exists>d'. map_option (fst \<circ> snd) rd = Some (Some d') \<and> (\<forall>i<ds. d' i = d i))"
    using trip by blast
  show ?thesis
    by (intro conjI wr copies same verdict p1 p2 p3)
qed

text \<open>
  A program of four data bytes \<open>0xAA\<close> with a zeroed spare buffer, on a parity unit that
  returns \<open>0x0F0F0F00\<close>: the code \<open>0xF0F0F0FF\<close> goes out at spare bytes 8 to 11 and 12 to
  15. A read that gets these bytes back with one bit of byte 8 flipped (\<open>0xFD\<close>)
  succeeds through the copy at offset 12. A read that gets them back with two bits of
  byte 8 flipped (\<open>0xFC\<close>) fails with \<open>FM_ECC_ERROR\<close> although the copy at offset 12 is
  intact, and so does a read with one bit flipped in byte 8 and one in byte 12.
\<close>

theorem ecc_copies_offsets_8_and_12_witness:
  "map_option fst
     (fsmc_nand_write_page example_config small_spec
        ((example_hw (\<lambda>k. 0))\<lparr>ecc_unit := \<lambda>bs. 0x0F0F0F00\<rparr>)
        0 0 0 (Some (\<lambda>i. 0xAA)) (Some (\<lambda>i. 0)) False) = Some FM_SUCCESS
   \<and> map_option (bus \<circ> snd \<circ> snd)
     (fsmc_nand_write_page example_config small_spec
        ((example_hw (\<lambda>k. 0))\<lparr>ecc_unit := \<lambda>bs. 0x0F0F0F00\<rparr>)
        0 0 0 (Some (\<lambda>i. 0xAA)) (Some (\<lambda>i. 0)) False) =
       Some [CMD NAND_CMD_PAGEPROGRAM, ADDR 0, ADDR 0, ADDR 0, ADDR 0,
             DATA [0xAA, 0xAA, 0xAA, 0xAA],
             CMD NAND_CMD_RANDOMIN, ADDR 0, ADDR 8,
             DATA [0, 0, 0, 0, 0, 0, 0, 0, 0xFF, 0xF0, 0xF0, 0xF0, 0xFF, 0xF0, 0xF0, 0xF0],
             CMD NAND_CMD_PAGEPROGRAM_TRUE]
   \<and> map_option fst
     (fsmc_nand_read_page example_config small_spec
        ((example_hw (\<lambda>k. if k < 4 then 0xAA else if k = 12 then 0xFD else if k = 16 then 0xFF
                           else if 12 < k \<and> k < 20 then 0xF0 else 0))
           \<lparr>ecc_unit := \<lambda>bs. 0x0F0F0F00\<rparr>)
        0 0 0 (Some (\<lambda>i. 0)) None) = Some FM_SUCCESS
   \<and> map_option fst
     (fsmc_nand_read_page example_config small_spec
        ((example_hw (\<lambda>k. if k < 4 then 0xAA else if k = 12 then 0xFC else if k = 16 then 0xFF
                           else if 12 < k \<and> k < 20 then 0xF0 else 0))
           \<lparr>ecc_unit := \<lambda>bs. 0x0F0F0F00\<rparr>)
        0 0 0 (Some (\<lambda>i. 0)) None) = Some FM_ECC_ERROR
   \<and> map_option fst
     (fsmc_nand_read_page example_config small_spec
        ((example_hw (\<lambda>k. if k < 4 then 0xAA else if k = 12 then 0xFD else if k = 16 then 0xFE
                           else if 12 < k \<and> k < 20 then 0xF0 else 0))
           \<lparr>ecc_unit := \<lambda>bs. 0x0F0F0F00\<rparr>)
        0 0 0 (Some (\<lambda>i. 0)) None) = Some FM_ECC_ERROR"
proof -
  let ?hw = "(example_hw (\<lambda>k. 0))\<lparr>ecc_unit := \<lambda>bs. 0x0F0F0F00\<rparr>"
  let ?good = "(example_hw (\<lambda>k. if k < 4 then 0xAA else if k = 12 then 0xFD
                                   else if k = 16 then 0xFF
                                   else if 12 < k \<and> k < 20 then 0xF0 else 0))
                 \<lparr>ecc_unit := \<lambda>bs. 0x0F0F0F00\<rparr>"
  let ?bad8 = "(example_hw (\<lambda>k. if k < 4 then 0xAA else if k = 12 then 0xFC
                                   else if k = 16 then 0xFF
                                   else if 12 < k \<and> k < 20 then 0xF0 else 0))
                 \<lparr>ecc_unit := \<lambda>bs. 0x0F0F0F00\<rparr>"
  let ?bad12 = "(example_hw (\<lambda>k. if k < 4 then 0xAA else if k = 12 then 0xFD
                                    else if k = 16 then 0xFE
                                    else if 12 < k \<and> k < 20 then 0xF0 else 0))
                  \<lparr>ecc_unit := \<lambda>bs. 0x0F0F0F00\<rparr>"
  have ecc: "HW_ECC example_config"
    by (simp add: example_config_def)
  have ready: "pin ?good (pin_pos ?good + 0)" "pin ?bad8 (pin_pos ?bad8 + 0)"
    "pin ?bad12 (pin_pos ?bad12 + 0)"
    by (simp_all add: example_hw_def)
  have fits: "(None :: buffer option) \<noteq> None
              \<or> (0 < MAX_SECTORS_PER_PAGE example_config
                  \<and> unat (spare_size (small_spec (unat (0 :: u16))))
                      \<le> 16 * MAX_SECTORS_PER_PAGE example_config)"
    by (simp add: example_config_def small_spec_def)
  note good = ecc_copies_offsets_8_and_12 [where c = example_config and fs = small_spec
      and chip = 0 and hr = "?good" and n = 0 and sarg_r = None and block = 0
      and page = 0 and h = ?hw and d = "\<lambda>i. 0xAA" and sarg = "Some (\<lambda>i. 0)"
      and is_last = False and dr = "\<lambda>i. 0", OF ecc ready(1) fits]
  note bad8 = ecc_copies_offsets_8_and_12 [where c = example_config and fs = small_spec
      and chip = 0 and hr = "?bad8" and n = 0 and sarg_r = None and block = 0
      and page = 0 and h = ?hw and d = "\<lambda>i. 0xAA" and sarg = "Some (\<lambda>i. 0)"
      and is_last = False and dr = "\<lambda>i. 0", OF ecc ready(2) fits]
  note bad12 = ecc_copies_offsets_8_and_12 [where c = example_config and fs = small_spec
      and chip = 0 and hr = "?bad12" and n = 0 and sarg_r = None and block = 0
      and page = 0 and h = ?hw and d = "\<lambda>i. 0xAA" and sarg = "Some (\<lambda>i. 0)"
      and is_last = False and dr = "\<lambda>i. 0", OF ecc ready(3) fits]
  from good [THEN conjunct1] obtain hw' so
    where "fsmc_nand_write_page example_config small_spec ?hw 0 0 0
             (Some (\<lambda>i. 0xAA)) (Some (\<lambda>i. 0)) False = Some (FM_SUCCESS, so, hw')"
      and "bus hw' =
             [CMD NAND_CMD_PAGEPROGRAM, ADDR 0, ADDR 0, ADDR 0, ADDR 0,
              DATA [0xAA, 0xAA, 0xAA, 0xAA],
              CMD NAND_CMD_RANDOMIN, ADDR 0, ADDR 8,
              DATA [0, 0, 0, 0, 0, 0, 0, 0, 0xFF, 0xF0, 0xF0, 0xF0, 0xFF, 0xF0, 0xF0, 0xF0],
              CMD NAND_CMD_PAGEPROGRAM_TRUE]"
    by (auto simp add: example_config_def example_hw_def small_spec_def flash_spec_init_def
        store32_def ROW_ADDRESS_def ADDR_1st_CYCLE_def ADDR_2nd_CYCLE_def upt_examples)
  moreover
  from good [THEN conjunct2, THEN conjunct2, THEN conjunct2, THEN conjunct2, THEN conjunct1]
  have "map_option fst
          (fsmc_nand_read_page example_config small_spec ?good 0 0 0 (Some (\<lambda>i. 0)) None)
        = Some FM_SUCCESS"
    by (simp add: example_config_def example_hw_def small_spec_def flash_spec_init_def
        load32_def ecc_correct_data_def syndrome_of_def ECC_MASK28_def ECC_MASK_def Let_def
        count_loop.simps)
  moreover
  from bad8 [THEN conjunct2, THEN conjunct2, THEN conjunct2, THEN conjunct2, THEN conjunct1]
  have "map_option fst
          (fsmc_nand_read_page example_config small_spec ?bad8 0 0 0 (Some (\<lambda>i. 0)) None)
        = Some FM_ECC_ERROR"
    by (simp add: example_config_def example_hw_def small_spec_def flash_spec_init_def
        load32_def ecc_correct_data_def syndrome_of_def ECC_MASK28_def ECC_MASK_def Let_def
        count_loop.simps)
  moreover
  from bad12 [THEN conjunct2, THEN conjunct2, THEN conjunct2, THEN conjunct2, THEN conjunct1]
  have "map_option fst
          (fsmc_nand_read_page example_config small_spec ?bad12 0 0 0 (Some (\<lambda>i. 0)) None)
        = Some FM_ECC_ERROR"
    by (simp add: example_config_def example_hw_def small_spec_def flash_spec_init_def
        load32_def ecc_correct_data_def syndrome_of_def ECC_MASK28_def ECC_MASK_def Let_def
        count_loop.simps)
  ultimately show ?thesis
    by simp
qed

section \<open>Properties of the asynchronous mode\<close>

lemma erase_async:
  "\<exists>h'. fsmc_nand_erase c h chip block = Some (FM_SUCCESS, h') \<and> no_status_resolution h h'"
  by (simp add: fsmc_nand_erase_def Let_def ASYNC_MODE_nonzero emit_def no_status_resolution_def)

lemma write_bytes_async:
  "\<exists>h'. fsmc_nand_write_bytes c h chip block page num_bytes dbuf =
          Some (if dbuf \<noteq> None \<and> 4 \<le> num_bytes then FM_SUCCESS else FM_ERROR, h')
        \<and> no_status_resolution h h'"
  by (cases dbuf)
    (auto simp add: fsmc_nand_write_bytes_def Let_def ASYNC_MODE_nonzero emit_def
      DATA_WRITE_def no_status_resolution_def not_less)

lemma write_page_async:
  "\<exists>so h'. fsmc_nand_write_page c fs h chip block page dbuf sarg is_last =
          Some (if dbuf \<noteq> None \<or> sarg \<noteq> None \<or> HW_ECC c then FM_SUCCESS else FM_ERROR, so, h')
        \<and> no_status_resolution h h'"
  by (cases dbuf; cases sarg; cases "HW_ECC c")
    (simp_all add: fsmc_nand_write_page_def Let_def ASYNC_MODE_nonzero emit_def
      DATA_WRITE_def FSMC_NANDECCCmd_def no_status_resolution_def)

text \<open>
  When the first status byte shows the error bit or does not show the ready bit, the
  budget of two reads runs out, whatever the second byte is. When it shows the ready bit
  and not the error bit, the loop ends at once with \<open>NAND_READY\<close>.
\<close>

lemma status_loop_not_ready_first:
  assumes distinct: "NAND_BUSY c \<noteq> NAND_READY c" "NAND_ERROR c \<noteq> NAND_READY c"
    and byte: "ucast (port h (port_pos h)) AND NAND_ERROR c = NAND_ERROR c
               \<or> ucast (port h (port_pos h)) AND NAND_READY c \<noteq> NAND_READY c"
  shows "fst (snd (status_loop c h 2 (NAND_BUSY c))) = 0"
proof -
  let ?h1 = "emit h [CMD NAND_CMD_STATUS]"
  let ?h2 = "snd (read_port ?h1)"
  let ?st = "if ucast (port h (port_pos h)) AND NAND_ERROR c = NAND_ERROR c
             then NAND_ERROR c else NAND_BUSY c"
  have first: "status_loop c h 2 (NAND_BUSY c) = status_loop c ?h2 1 ?st"
    using distinct byte
    by (subst status_loop.simps) (auto simp add: Let_def read_port_def emit_def split_beta)
  have st: "?st \<noteq> NAND_READY c"
    using distinct by simp
  have "\<exists>h3 st3. status_loop c ?h2 1 ?st = status_loop c h3 0 st3"
    using st by (subst status_loop.simps) (simp add: Let_def split_beta, blast)
  then obtain h3 st3 where "status_loop c ?h2 1 ?st = status_loop c h3 0 st3"
    by blast
  moreover have "status_loop c h3 0 st3 = (h3, 0, st3)"
    by (subst status_loop.simps) simp
  ultimately show ?thesis
    using first by simp
qed

lemma status_loop_ready_first:
  assumes distinct: "NAND_BUSY c \<noteq> NAND_READY c"
    and no_error: "ucast (port h (port_pos h)) AND NAND_ERROR c \<noteq> NAND_ERROR c"
    and ready: "ucast (port h (port_pos h)) AND NAND_READY c = NAND_READY c"
  shows "snd (status_loop c h 2 (NAND_BUSY c)) = (1, NAND_READY c)"
proof -
  let ?h1 = "emit h [CMD NAND_CMD_STATUS]"
  let ?h2 = "snd (read_port ?h1)"
  have "status_loop c h 2 (NAND_BUSY c) = status_loop c ?h2 1 (NAND_READY c)"
    using assms
    by (subst status_loop.simps) (simp add: Let_def read_port_def emit_def split_beta)
  moreover have "status_loop c ?h2 1 (NAND_READY c) = (?h2, 1, NAND_READY c)"
    by (subst status_loop.simps) simp
  ultimately show ?thesis
    by simp
qed

lemma sync_reports_not_ready:
  assumes "NAND_BUSY c \<noteq> NAND_READY c" "NAND_ERROR c \<noteq> NAND_READY c"
    and "NAND_TIMEOUT_ERROR c \<noteq> NAND_READY c"
    and "pin h (pin_pos h + n)"
    and "ucast (port h (port_pos h)) AND NAND_ERROR c = NAND_ERROR c
         \<or> ucast (port h (port_pos h)) AND NAND_READY c \<noteq> NAND_READY c"
  shows "map_option fst (fsmc_nand_sync c h chip prev_command) = Some FM_ERROR"
proof -
  from WAIT_FLASH_READY_returns [OF assms(4)] obtain k
    where w: "WAIT_FLASH_READY h = Some (h\<lparr>pin_pos := k\<rparr>)"
    by blast
  let ?h0 = "h\<lparr>pin_pos := k\<rparr>"
  have "ucast (port ?h0 (port_pos ?h0)) AND NAND_ERROR c = NAND_ERROR c
        \<or> ucast (port ?h0 (port_pos ?h0)) AND NAND_READY c \<noteq> NAND_READY c"
    using assms(5) by simp
  from status_loop_not_ready_first [OF assms(1,2) this]
  have "fst (snd (status_loop c ?h0 2 (NAND_BUSY c))) = 0" .
  then show ?thesis
    using w assms(3)
    by (simp add: fsmc_nand_sync_def fsmc_nand_get_status_def Let_def split_beta)
qed

lemma sync_reports_ready:
  assumes "NAND_BUSY c \<noteq> NAND_READY c"
    and "pin h (pin_pos h + n)"
    and "ucast (port h (port_pos h)) AND NAND_ERROR c \<noteq> NAND_ERROR c"
    and "ucast (port h (port_pos h)) AND NAND_READY c = NAND_READY c"
  shows "map_option fst (fsmc_nand_sync c h chip prev_command) = Some FM_SUCCESS"
proof -
  from WAIT_FLASH_READY_returns [OF assms(2)] obtain k
    where w: "WAIT_FLASH_READY h = Some (h\<lparr>pin_pos := k\<rparr>)"
    by blast
  let ?h0 = "h\<lparr>pin_pos := k\<rparr>"
  have "ucast (port ?h0 (port_pos ?h0)) AND NAND_ERROR c \<noteq> NAND_ERROR c"
    and "ucast (port ?h0 (port_pos ?h0)) AND NAND_READY c = NAND_READY c"
    using assms(3,4) by simp_all
  from status_loop_ready_first [OF assms(1) this]
  have "snd (status_loop c ?h0 2 (NAND_BUSY c)) = (1, NAND_READY c)" .
  then show ?thesis
    using w
    by (simp add: fsmc_nand_sync_def fsmc_nand_get_status_def Let_def split_beta)
qed

text \<open>
  C10. \<open>ASYNC_MODE\<close> is 1. \<open>fsmc_nand_erase\<close> returns \<open>FM_SUCCESS\<close> on every input;
  \<open>fsmc_nand_write_bytes\<close> returns \<open>FM_SUCCESS\<close> when the buffer is not null and at least 4
  bytes are asked for, and \<open>FM_ERROR\<close> otherwise; \<open>fsmc_nand_write_page\<close> returns
  \<open>FM_SUCCESS\<close> unless both buffers are null and \<open>HW_ECC\<close> is off, and \<open>FM_ERROR\<close> then. So
  \<open>FM_WRITE_ERROR\<close> and \<open>FM_ERASE_ERROR\<close> are never returned. None of the three resolves
  the status: no status command is issued and neither the port nor the ready pin is
  read. The state of the chip is seen by \<open>fsmc_nand_sync\<close>: on a chip whose ready pin
  rises, and for status values that differ from \<open>NAND_READY\<close>, it returns \<open>FM_ERROR\<close> when
  the status byte shows the error bit or lacks the ready bit, and \<open>FM_SUCCESS\<close> when the
  status byte shows the ready bit without the error bit.
\<close>

theorem async_mode_defers_status:
  "ASYNC_MODE = 1
   \<and> (\<exists>h'. fsmc_nand_erase c h chip block = Some (FM_SUCCESS, h')
            \<and> no_status_resolution h h')
   \<and> (\<exists>h'. fsmc_nand_write_bytes c h chip block page num_bytes dbuf =
              Some (if dbuf \<noteq> None \<and> 4 \<le> num_bytes then FM_SUCCESS else FM_ERROR, h')
            \<and> no_status_resolution h h')
   \<and> (\<exists>so h'. fsmc_nand_write_page c fs h chip block page dbuf sbuf is_last =
              Some (if dbuf \<noteq> None \<or> sbuf \<noteq> None \<or> HW_ECC c then FM_SUCCESS else FM_ERROR,
                    so, h')
            \<and> no_status_resolution h h')
   \<and> (NAND_BUSY c \<noteq> NAND_READY c \<and> NAND_ERROR c \<noteq> NAND_READY c
        \<and> NAND_TIMEOUT_ERROR c \<noteq> NAND_READY c
        \<and> pin h (pin_pos h + n)
        \<and> (ucast (port h (port_pos h)) AND NAND_ERROR c = NAND_ERROR c
            \<or> ucast (port h (port_pos h)) AND NAND_READY c \<noteq> NAND_READY c)
       \<longrightarrow> map_option fst (fsmc_nand_sync c h chip prev_command) = Some FM_ERROR)
   \<and> (NAND_BUSY c \<noteq> NAND_READY c
        \<and> pin h (pin_pos h + n)
        \<and> ucast (port h (port_pos h)) AND NAND_ERROR c \<noteq> NAND_ERROR c
        \<and> ucast (port h (port_pos h)) AND NAND_READY c = NAND_READY c
       \<longrightarrow> map_option fst (fsmc_nand_sync c h chip prev_command) = Some FM_SUCCESS)"
proof (intro conjI impI)
  show "ASYNC_MODE = 1"
    by (simp add: ASYNC_MODE_def)
  show "\<exists>h'. fsmc_nand_erase c h chip block = Some (FM_SUCCESS, h')
            \<and> no_status_resolution h h'"
    by (rule erase_async)
  show "\<exists>h'. fsmc_nand_write_bytes c h chip block page num_bytes dbuf =
              Some (if dbuf \<noteq> None \<and> 4 \<le> num_bytes then FM_SUCCESS else FM_ERROR, h')
            \<and> no_status_resolution h h'"
    by (rule write_bytes_async)
  show "\<exists>so h'. fsmc_nand_write_page c fs h chip block page dbuf sbuf is_last =
              Some (if dbuf \<noteq> None \<or> sbuf \<noteq> None \<or> HW_ECC c then FM_SUCCESS else FM_ERROR,
                    so, h')
            \<and> no_status_resolution h h'"
    by (rule write_page_async)
next
  assume "NAND_BUSY c \<noteq> NAND_READY c \<and> NAND_ERROR c \<noteq> NAND_READY c
        \<and> NAND_TIMEOUT_ERROR c \<noteq> NAND_READY c
        \<and> pin h (pin_pos h + n)
        \<and> (ucast (port h (port_pos h)) AND NAND_ERROR c = NAND_ERROR c
            \<or> ucast (port h (port_pos h)) AND NAND_READY c \<noteq> NAND_READY c)"
  then show "map_option fst (fsmc_nand_sync c h chip prev_command) = Some FM_ERROR"
    by (intro sync_reports_not_ready [where n = n]) simp_all
next
  assume "NAND_BUSY c \<noteq> NAND_READY c
        \<and> pin h (pin_pos h + n)
        \<and> ucast (port h (port_pos h)) AND NAND_ERROR c \<noteq> NAND_ERROR c
        \<and> ucast (port h (port_pos h)) AND NAND_READY c = NAND_READY c"
  then show "map_option fst (fsmc_nand_sync c h chip prev_command) = Some FM_SUCCESS"
    by (intro sync_reports_ready [where n = n]) simp_all
qed

text \<open>
  On a chip whose status byte shows ready and error (\<open>0x41\<close>), the erase of block 5
  returns \<open>FM_SUCCESS\<close>, and the \<open>fsmc_nand_sync\<close> that follows returns \<open>FM_ERROR\<close>. On a chip
  whose status byte shows ready alone (\<open>0x40\<close>) the \<open>fsmc_nand_sync\<close> returns \<open>FM_SUCCESS\<close>.
\<close>

theorem async_mode_defers_status_witness:
  "map_option fst (fsmc_nand_erase example_config (example_hw (\<lambda>k. 0x41)) 0 5) = Some FM_SUCCESS
   \<and> Option.bind (fsmc_nand_erase example_config (example_hw (\<lambda>k. 0x41)) 0 5)
        (\<lambda>(err, h'). map_option fst (fsmc_nand_sync example_config h' 0 0)) = Some FM_ERROR
   \<and> Option.bind (fsmc_nand_erase example_config (example_hw (\<lambda>k. 0x40)) 0 5)
        (\<lambda>(err, h'). map_option fst (fsmc_nand_sync example_config h' 0 0)) = Some FM_SUCCESS"
  using async_mode_defers_status [where c = example_config and h = "example_hw (\<lambda>k. 0x41)"
      and chip = 0 and block = 5 and n = 0 and prev_command = 0]
    async_mode_defers_status [where c = example_config and h = "example_hw (\<lambda>k. 0x40)"
      and chip = 0 and block = 5 and n = 0 and prev_command = 0]
  by (simp add: example_config_def example_hw_def fsmc_nand_erase_def ASYNC_MODE_def Let_def
      emit_def fsmc_nand_sync_def fsmc_nand_get_status_def WAIT_FLASH_READY_def wait_pin_ready
      status_loop.simps read_port_def)

end
